theory Spec2Isabelle
  imports Complex_Main
begin

section \<open>Values shared by the plugin actions\<close>

subsection \<open>Errors and results\<close>

text \<open>
  An API call of the cluster client fails with a status error that carries a reason
  (\<open>apierrors.IsNotFound\<close> reads it), or with some other error. \<open>errors.Wrapf\<close> and
  \<open>errors.WithStack\<close> of \<open>github.com/pkg/errors\<close> keep the cause, and
  \<open>IsNotFound\<close> looks through them. \<open>ErrWaitTimeout\<close> is the sentinel of
  \<open>wait.PollImmediate\<close>.
\<close>

datatype StatusReason = StatusReasonNotFound | StatusReasonAlreadyExists | StatusReasonOther string

datatype error =
    StatusError StatusReason
  | ErrorString string
  | Wrapf error string
  | WithStack error
  | ErrWaitTimeout

fun IsNotFound :: "error \<Rightarrow> bool" where
  "IsNotFound (StatusError r) = (r = StatusReasonNotFound)"
| "IsNotFound (ErrorString s) = False"
| "IsNotFound (Wrapf e s) = IsNotFound e"
| "IsNotFound (WithStack e) = IsNotFound e"
| "IsNotFound ErrWaitTimeout = False"

text \<open>
  What a Go function call ends in: it returns a value, it returns a non-nil error, or
  it panics (a nil pointer dereference, \<open>resource.MustParse\<close> on a malformed size).
\<close>

datatype 'a result = Return 'a | Failed error | Panic

subsection \<open>Go strings and maps\<close>

text \<open>
  A Go string is a sequence of bytes, as \<^typ>\<open>string\<close> is. A Go map may be nil
  (\<open>None\<close>); reading a nil map or a missing key gives the zero value, the empty string.
\<close>

type_synonym gomap = "(string \<rightharpoonup> string) option"

definition index :: "gomap \<Rightarrow> string \<Rightarrow> string" where
  "index m k = (case m of None \<Rightarrow> [] | Some f \<Rightarrow> (case f k of None \<Rightarrow> [] | Some v \<Rightarrow> v))"

definition commaOk :: "gomap \<Rightarrow> string \<Rightarrow> string \<times> bool" where
  "commaOk m k = (case m of None \<Rightarrow> ([], False)
                  | Some f \<Rightarrow> (case f k of None \<Rightarrow> ([], False) | Some v \<Rightarrow> (v, True)))"

text \<open>
  \<open>strings.TrimSpace\<close> of the Go standard library, on the bytes of the string: it
  removes the leading and the trailing white space, where white space is a rune with
  Unicode's White Space property. \<open>asciiSpace\<close> holds the six ASCII ones;
  \<open>unicodeSpaces\<close> holds the UTF-8 encodings of the others (U+0085, U+00A0, U+1680,
  U+2000 to U+200A, U+2028, U+2029, U+202F, U+205F, U+3000). A byte that starts no valid
  encoding decodes to U+FFFD, which is no white space, so trimming stops there.
\<close>

definition asciiSpace :: "char \<Rightarrow> bool" where
  "asciiSpace c = (c \<in> set [CHR 0x09, CHR 0x0A, CHR 0x0B, CHR 0x0C, CHR 0x0D, CHR 0x20])"

definition unicodeSpaces :: "string list" where
  "unicodeSpaces =
    [[CHR 0xC2, CHR 0x85], [CHR 0xC2, CHR 0xA0], [CHR 0xE1, CHR 0x9A, CHR 0x80],
     [CHR 0xE2, CHR 0x80, CHR 0x80], [CHR 0xE2, CHR 0x80, CHR 0x81],
     [CHR 0xE2, CHR 0x80, CHR 0x82], [CHR 0xE2, CHR 0x80, CHR 0x83],
     [CHR 0xE2, CHR 0x80, CHR 0x84], [CHR 0xE2, CHR 0x80, CHR 0x85],
     [CHR 0xE2, CHR 0x80, CHR 0x86], [CHR 0xE2, CHR 0x80, CHR 0x87],
     [CHR 0xE2, CHR 0x80, CHR 0x88], [CHR 0xE2, CHR 0x80, CHR 0x89],
     [CHR 0xE2, CHR 0x80, CHR 0x8A], [CHR 0xE2, CHR 0x80, CHR 0xA8],
     [CHR 0xE2, CHR 0x80, CHR 0xA9], [CHR 0xE2, CHR 0x80, CHR 0xAF],
     [CHR 0xE2, CHR 0x81, CHR 0x9F], [CHR 0xE3, CHR 0x80, CHR 0x80]]"

text \<open>The width in bytes of the white-space rune a string starts with (0: none).\<close>

definition leadingSpace :: "string \<Rightarrow> nat" where
  "leadingSpace s =
     (case s of [] \<Rightarrow> 0
      | c # cs \<Rightarrow>
          if asciiSpace c then 1
          else (case find (\<lambda>e. take (length e) s = e) unicodeSpaces of
                  None \<Rightarrow> 0 | Some e \<Rightarrow> length e))"

text \<open>The width in bytes of the white-space rune a string ends with (0: none).\<close>

definition trailingSpace :: "string \<Rightarrow> nat" where
  "trailingSpace s =
     (case rev s of [] \<Rightarrow> 0
      | c # cs \<Rightarrow>
          if asciiSpace c then 1
          else (case find (\<lambda>e. drop (length s - length e) s = e) unicodeSpaces of
                  None \<Rightarrow> 0 | Some e \<Rightarrow> length e))"

fun trimLeft :: "nat \<Rightarrow> string \<Rightarrow> string" where
  "trimLeft 0 s = s"
| "trimLeft (Suc n) s =
     (if leadingSpace s = 0 then s else trimLeft n (drop (leadingSpace s) s))"

fun trimRight :: "nat \<Rightarrow> string \<Rightarrow> string" where
  "trimRight 0 s = s"
| "trimRight (Suc n) s =
     (if trailingSpace s = 0 then s else trimRight n (take (length s - trailingSpace s) s))"

text \<open>
  Each round removes at least one byte, so \<open>length s\<close> rounds are enough on either
  side (\<open>trimLeft_done\<close>, \<open>trimRight_done\<close> below).
\<close>

definition TrimSpace :: "string \<Rightarrow> string" where
  "TrimSpace s = (let l = trimLeft (length s) s in trimRight (length l) l)"

text \<open>
  \<open>label.GetValidName\<close> of Velero: a name of at most 63 bytes
  (\<open>validation.DNS1035LabelMaxLength\<close>) is kept; a longer one is cut to 57 bytes,
  followed by the first six characters of the hexadecimal SHA-256 of the whole name.
  The digest is the parameter \<open>sha256hex\<close>.
\<close>

definition DNS1035LabelMaxLength :: nat where
  "DNS1035LabelMaxLength = 63"

definition GetValidName :: "(string \<Rightarrow> string) \<Rightarrow> string \<Rightarrow> string" where
  "GetValidName sha256hex label =
     (if length label \<le> DNS1035LabelMaxLength then label
      else take (DNS1035LabelMaxLength - 6) label @ take 6 (sha256hex label))"

definition BackupNameLabel :: string where
  "BackupNameLabel = ''velero.io/backup-name''"


subsection \<open>Object metadata\<close>

record ObjectMeta =
  Name :: string
  Namespace :: string
  Labels :: gomap
  Annotations :: gomap

text \<open>\<open>util.HasBackupLabel\<close>.\<close>

definition HasBackupLabel :: "(string \<Rightarrow> string) \<Rightarrow> 'a ObjectMeta_scheme \<Rightarrow> string \<Rightarrow> bool" where
  "HasBackupLabel sha256hex o' backupName =
     (if Labels o' = None \<or> length (TrimSpace backupName) = 0 then False
      else index (Labels o') BackupNameLabel = GetValidName sha256hex backupName)"


section \<open>The objects the actions read and write\<close>

text \<open>
  Only the fields the actions touch. A Go pointer field is an \<open>option\<close>
  (\<open>None\<close> is nil); an embedded \<open>ObjectMeta\<close> is a record extension.
\<close>

record ObjectReference =
  ref_Kind :: string
  ref_Namespace :: string
  ref_Name :: string

record TypedLocalObjectReference =
  tl_APIGroup :: "string option"
  tl_Kind :: string
  tl_Name :: string

text \<open>\<open>snapshot.storage.k8s.io\<close>: \<open>DeletionPolicy\<close> is a string type.\<close>

definition VolumeSnapshotContentDelete :: string where
  "VolumeSnapshotContentDelete = ''Delete''"


definition SchemeGroupVersion_Group :: string where
  "SchemeGroupVersion_Group = ''snapshot.storage.k8s.io''"

record VolumeSnapshotContentSpec =
  DeletionPolicy :: string
  Driver :: string
  VolumeSnapshotRef :: ObjectReference
  Source_SnapshotHandle :: "string option"

record VolumeSnapshotContentStatus =
  SnapshotHandle :: "string option"

record VolumeSnapshotContent = ObjectMeta +
  vsc_Spec :: VolumeSnapshotContentSpec
  vsc_Status :: "VolumeSnapshotContentStatus option"

record VolumeSnapshotStatus =
  BoundVolumeSnapshotContentName :: "string option"

record VolumeSnapshot = ObjectMeta +
  Source_PersistentVolumeClaimName :: "string option"
  Source_VolumeSnapshotContentName :: "string option"
  vs_Status :: "VolumeSnapshotStatus option"

text \<open>
  \<open>resource.Quantity\<close>: a decimal number with a display format. \<open>Cmp\<close> compares
  the numbers only.
\<close>

datatype Format = DecimalExponent | BinarySI | DecimalSI

record Quantity =
  amount :: rat
  format :: Format

definition Cmp :: "Quantity \<Rightarrow> Quantity \<Rightarrow> int" where
  "Cmp q y = (if amount q = amount y then 0 else if amount q < amount y then - 1 else 1)"

definition ResourceStorage :: string where
  "ResourceStorage = ''storage''"

type_synonym ResourceList = "string \<rightharpoonup> Quantity"

record PersistentVolumeClaim = ObjectMeta +
  VolumeName :: string
  DataSource :: "TypedLocalObjectReference option"
  Requests :: "ResourceList option"

text \<open>The mover's resources (\<open>volume-snapshot-mover\<close>) and VolSync's.\<close>

record PVCData =
  pvc_Name :: string
  pvc_Size :: string

record DMBRef =
  BackedUpPVCData :: PVCData
  ResticRepository :: string

record DataMoverBackup = ObjectMeta +
  dmb_VolumeSnapshotContent_Name :: string
  dmb_ProtectedNamespace :: string

record VolumeSnapshotBackup = ObjectMeta +
  vsb_VolumeSnapshotContent_Name :: string
  vsb_ProtectedNamespace :: string

record DataMoverRestore = ObjectMeta +
  dmr_ResticSecretRef_Name :: string
  dmr_DataMoverBackupref :: DMBRef
  dmr_ProtectedNamespace :: string

record VolumeSnapshotRestore = ObjectMeta +
  vsr_VolumeSnapshotMoverBackupref :: DMBRef
  vsr_ProtectedNamespace :: string
  vsr_Status_SnapshotHandle :: string

record ReplicationDestinationTriggerSpec =
  Manual :: string

record ReplicationDestinationStatus =
  LastSyncTime :: "nat option"
  LastManualSync :: string
  LatestImage :: "TypedLocalObjectReference option"

record ReplicationDestination = ObjectMeta +
  rd_Trigger :: "ReplicationDestinationTriggerSpec option"
  rd_Status :: "ReplicationDestinationStatus option"

text \<open>The calls an action makes on the cluster API, in the order it makes them.\<close>

datatype apiCall =
    PatchVolumeSnapshotContent string string
  | DeleteVolumeSnapshotContent string
  | CreateVolumeSnapshotContent VolumeSnapshotContent
  | GetVolumeSnapshotContent string
  | GetVolumeSnapshot string string
  | GetDataMoverBackup string string
  | CreateVolumeSnapshotBackup VolumeSnapshotBackup
  | GetDataMoverRestore string string
  | CreateDataMoverRestore DataMoverRestore
  | GetVolumeSnapshotRestore string string
  | GetReplicationDestination string string

section \<open>The deletion guard: \<open>internal/delete/volumesnapshotcontent_action.go\<close>\<close>

text \<open>
  What the cluster answers to the action: \<open>GetClients\<close> (an error, or the clients),
  the patch and the delete of a SnapshotContent by name (an error, or nil).
\<close>

record DeleteCluster =
  GetClients :: "error option"
  Patch :: "string \<Rightarrow> string \<Rightarrow> error option"
  Delete :: "string \<Rightarrow> error option"

text \<open>
  \<open>Item\<close> is what \<open>FromUnstructured\<close> makes of \<open>input.Item\<close>: the typed
  SnapshotContent, or the conversion error.
\<close>

record DeleteItemActionExecuteInput =
  Item :: "error + VolumeSnapshotContent"
  Backup_Name :: string

text \<open>\<open>util.SetVolumeSnapshotContentDeletionPolicy\<close>: one merge patch.\<close>

definition deletionPolicyPatch :: string where
  \<open>deletionPolicyPatch = ''{"spec":{"deletionPolicy":"Delete"}}''\<close>

definition SetVolumeSnapshotContentDeletionPolicy ::
  "DeleteCluster \<Rightarrow> string \<Rightarrow> error option \<times> apiCall list" where
  "SetVolumeSnapshotContentDeletionPolicy cl vscName =
     (Patch cl vscName deletionPolicyPatch,
      [PatchVolumeSnapshotContent vscName deletionPolicyPatch])"

text \<open>
  \<open>VolumeSnapshotContentDeleteItemAction.Execute\<close>. The warning of the not-found
  branch reads \<open>*snapCont.Status.SnapshotHandle\<close> before it returns nil: a nil status
  or a nil handle panics there.
\<close>

definition VolumeSnapshotContentDeleteItemAction_Execute ::
  "(string \<Rightarrow> string) \<Rightarrow> DeleteCluster \<Rightarrow> DeleteItemActionExecuteInput
     \<Rightarrow> unit result \<times> apiCall list" where
  "VolumeSnapshotContentDeleteItemAction_Execute sha256hex cl input =
     (case Item input of
        Inl err \<Rightarrow> (Failed (Wrapf err ''failed to convert input.Item from unstructured''), [])
      | Inr snapCont \<Rightarrow>
          if \<not> HasBackupLabel sha256hex snapCont (Backup_Name input) then (Return (), [])
          else
            (case GetClients cl of
               Some err \<Rightarrow> (Failed (WithStack err), [])
             | None \<Rightarrow>
                 (case SetVolumeSnapshotContentDeletionPolicy cl (Name snapCont) of
                    (Some err, calls) \<Rightarrow>
                      if IsNotFound err then
                        (case vsc_Status snapCont of
                           None \<Rightarrow> (Panic, calls)
                         | Some st \<Rightarrow>
                             (case SnapshotHandle st of
                                None \<Rightarrow> (Panic, calls)
                              | Some handle \<Rightarrow> (Return (), calls)))
                      else
                        (Failed (Wrapf err (''failed to set DeletionPolicy on volumesnapshotcontent ''
                                 @ Name snapCont @ ''. Skipping deletion'')), calls)
                  | (None, calls) \<Rightarrow>
                      (case Delete cl (Name snapCont) of
                         Some err \<Rightarrow>
                           if \<not> IsNotFound err
                           then (Failed err, calls @ [DeleteVolumeSnapshotContent (Name snapCont)])
                           else (Return (), calls @ [DeleteVolumeSnapshotContent (Name snapCont)])
                       | None \<Rightarrow> (Return (), calls @ [DeleteVolumeSnapshotContent (Name snapCont)])))))"

section \<open>Restore: what the actions are given\<close>

text \<open>
  \<open>RestoreItem\<close> is what \<open>FromUnstructured\<close> makes of \<open>input.Item\<close>;
  \<open>NamespaceMapping\<close> is \<open>input.Restore.Spec.NamespaceMapping\<close>.
\<close>

record 'a RestoreItemActionExecuteInput =
  RestoreItem :: "error + 'a"
  Restore_Name :: string
  NamespaceMapping :: "string \<rightharpoonup> string"

record ResourceIdentifier =
  Group :: string
  Resource :: string
  ri_Namespace :: string
  ri_Name :: string

record 'a RestoreItemActionExecuteOutput =
  UpdatedItem :: "'a option"
  AdditionalItems :: "ResourceIdentifier list"
  SkipRestore :: bool

definition emptyOutput :: "'a RestoreItemActionExecuteOutput" where
  "emptyOutput = \<lparr>UpdatedItem = None, AdditionalItems = [], SkipRestore = False\<rparr>"

text \<open>
  What the cluster and the libraries answer during one call of a restore action.
  A \<open>Get\<close> is answered per kind by namespace and name, with an error or the object.
  \<open>MustParse\<close> is \<open>resource.MustParse\<close> (\<open>None\<close>: it panics on the string);
  \<open>fmtVerbs\<close> is what \<open>fmt.Sprintf\<close> makes of a format with verbs and no operands;
  \<open>ToUnstructured\<close> is the error of the conversion back, if any.
\<close>

record RestoreCluster =
  GetDatamoverClient :: "error option"
  GetReplicationDestinationClient :: "error option"
  GetSnapshotClients :: "error option"
  DataMoverRestores :: "string \<times> string \<Rightarrow> error + DataMoverRestore"
  VolumeSnapshotRestores :: "string \<times> string \<Rightarrow> error + VolumeSnapshotRestore"
  ReplicationDestinations :: "string \<times> string \<Rightarrow> error + ReplicationDestination"
  VolumeSnapshots :: "string \<times> string \<Rightarrow> error + VolumeSnapshot"
  VolumeSnapshotContents :: "string \<times> string \<Rightarrow> error + VolumeSnapshotContent"
  GetVolumeSnapshotMoverClient :: "error option"
  CreateVSC :: "VolumeSnapshotContent \<Rightarrow> error + VolumeSnapshotContent"
  CreateDMR :: "DataMoverRestore \<Rightarrow> error option"
  MustParse :: "string \<Rightarrow> Quantity option"
  fmtVerbs :: "string \<Rightarrow> string"
  ToUnstructured :: "error option"

text \<open>
  A \<open>Get\<close> of the API client: the object it returns carries the name and the namespace
  it was asked for.
\<close>

definition Get ::
  "(string \<times> string \<Rightarrow> error + 'a ObjectMeta_scheme) \<Rightarrow> string \<Rightarrow> string
     \<Rightarrow> error + 'a ObjectMeta_scheme" where
  "Get objects namespace name =
     (case objects (namespace, name) of
        Inl err \<Rightarrow> Inl err
      | Inr obj \<Rightarrow> Inr (obj\<lparr>Name := name, Namespace := namespace\<rparr>))"

text \<open>
  \<open>fmt.Sprintf(fmt)\<close> with no operands: a format without \<open>%\<close> is printed as it
  is.
\<close>

definition Sprintf :: "(string \<Rightarrow> string) \<Rightarrow> string \<Rightarrow> string" where
  "Sprintf verbs fmt = (if CHR ''%'' \<in> set fmt then verbs fmt else fmt)"

section \<open>The claim rewrite: the PVC restore action\<close>

definition AnnBindCompleted :: string where
  "AnnBindCompleted = ''pv.kubernetes.io/bind-completed''"

definition AnnBoundByController :: string where
  "AnnBoundByController = ''pv.kubernetes.io/bound-by-controller''"

definition AnnStorageProvisioner :: string where
  "AnnStorageProvisioner = ''volume.beta.kubernetes.io/storage-provisioner''"

definition AnnSelectedNode :: string where
  "AnnSelectedNode = ''volume.kubernetes.io/selected-node''"

text \<open>\<open>util.Contains\<close>.\<close>

fun Contains :: "string list \<Rightarrow> string \<Rightarrow> bool" where
  "Contains [] key = False"
| "Contains (i # slice) key = (if i = key then True else Contains slice key)"

text \<open>
  \<open>removePVCAnnotations\<close>: a nil map becomes an empty one; otherwise the loop deletes
  every key of the map that is in \<open>remove\<close>.
\<close>

definition removePVCAnnotations :: "PersistentVolumeClaim \<Rightarrow> string list \<Rightarrow> PersistentVolumeClaim" where
  "removePVCAnnotations pvc remove =
     (case Annotations pvc of
        None \<Rightarrow> pvc\<lparr>Annotations := Some Map.empty\<rparr>
      | Some a \<Rightarrow> pvc\<lparr>Annotations := Some (\<lambda>k. if Contains remove k then None else a k)\<rparr>)"

definition resetPVCSpec :: "PersistentVolumeClaim \<Rightarrow> string \<Rightarrow> PersistentVolumeClaim" where
  "resetPVCSpec pvc vsName =
     pvc\<lparr>VolumeName := [],
         DataSource := Some \<lparr>tl_APIGroup = Some SchemeGroupVersion_Group,
                             tl_Kind = ''VolumeSnapshot'', tl_Name = vsName\<rparr>\<rparr>"

definition setPVCStorageResourceRequest :: "PersistentVolumeClaim \<Rightarrow> Quantity \<Rightarrow> PersistentVolumeClaim" where
  "setPVCStorageResourceRequest pvc restoreSize =
     (let requests = (case Requests pvc of None \<Rightarrow> Map.empty | Some r \<Rightarrow> r) in
      case requests ResourceStorage of
        None \<Rightarrow> pvc\<lparr>Requests := Some (requests(ResourceStorage \<mapsto> restoreSize))\<rparr>
      | Some storageReq \<Rightarrow>
          if Cmp storageReq restoreSize < 0
          then pvc\<lparr>Requests := Some (requests(ResourceStorage \<mapsto> restoreSize))\<rparr>
          else pvc\<lparr>Requests := Some requests\<rparr>)"

text \<open>The storage request of a claim, if it has one.\<close>

definition storageRequest :: "PersistentVolumeClaim \<Rightarrow> Quantity option" where
  "storageRequest pvc = (case Requests pvc of None \<Rightarrow> None | Some r \<Rightarrow> r ResourceStorage)"

text \<open>
  \<open>PVCRestoreItemAction.Execute\<close>. The name of the replication destination is the
  constant of the source. \<open>repDestination.Status.LatestImage.Name\<close> dereferences two
  pointers, and \<open>resource.MustParse\<close> panics on a size it cannot read.
\<close>

definition PVCRestoreItemAction_Execute ::
  "RestoreCluster \<Rightarrow> PersistentVolumeClaim RestoreItemActionExecuteInput
     \<Rightarrow> PersistentVolumeClaim RestoreItemActionExecuteOutput result \<times> apiCall list" where
  "PVCRestoreItemAction_Execute cl input =
     (case RestoreItem input of
        Inl err \<Rightarrow> (Failed (WithStack err), [])
      | Inr pvc0 \<Rightarrow>
          (let pvc1 = removePVCAnnotations pvc0
                       [AnnBindCompleted, AnnBoundByController, AnnStorageProvisioner, AnnSelectedNode];
               pvc = (case NamespaceMapping input (Namespace pvc1) of
                        Some val \<Rightarrow> pvc1\<lparr>Namespace := val\<rparr>
                      | None \<Rightarrow> pvc1)
           in
           (case GetDatamoverClient cl of
              Some err \<Rightarrow> (Failed err, [])
            | None \<Rightarrow>
                (let dataMoverRestoreName = Sprintf (fmtVerbs cl) (''dmr-'' @ Name pvc);
                     calls1 = [GetDataMoverRestore (Namespace pvc) dataMoverRestoreName]
                 in
                 (case Get (DataMoverRestores cl) (Namespace pvc) dataMoverRestoreName of
                    Inl err \<Rightarrow>
                      (Failed (Wrapf err (''failed to get datamoverrestore '' @ dataMoverRestoreName)),
                       calls1)
                  | Inr dmr \<Rightarrow>
                      (case GetReplicationDestinationClient cl of
                         Some err \<Rightarrow> (Failed err, calls1)
                       | None \<Rightarrow>
                           (let calls2 = calls1 @ [GetReplicationDestination (dmr_ProtectedNamespace dmr)
                                                    ''dmr-mssql-pvc-rep-dest'']
                            in
                            (case Get (ReplicationDestinations cl) (dmr_ProtectedNamespace dmr)
                                    ''dmr-mssql-pvc-rep-dest'' of
                               Inl err \<Rightarrow>
                                 (Failed (Wrapf err ''failed to get repDest for PVC dmr-mssql-pvc-rep-dest''),
                                  calls2)
                             | Inr repDestination \<Rightarrow>
                                 (case rd_Status repDestination of
                                    None \<Rightarrow> (Panic, calls2)
                                  | Some status \<Rightarrow>
                                      (case LatestImage status of
                                         None \<Rightarrow> (Panic, calls2)
                                       | Some latestImage \<Rightarrow>
                                           (let volumeSnapshotName = tl_Name latestImage;
                                                stringRestoreSize =
                                                  pvc_Size (BackedUpPVCData (dmr_DataMoverBackupref dmr))
                                            in
                                            (case MustParse cl stringRestoreSize of
                                               None \<Rightarrow> (Panic, calls2)
                                             | Some restoreSize \<Rightarrow>
                                                 (case ToUnstructured cl of
                                                    Some err \<Rightarrow> (Failed (WithStack err), calls2)
                                                  | None \<Rightarrow>
                                                      (Return \<lparr>UpdatedItem =
                                                           Some (resetPVCSpec
                                                             (setPVCStorageResourceRequest pvc restoreSize)
                                                             volumeSnapshotName),
                                                         AdditionalItems = [], SkipRestore = False\<rparr>,
                                                       calls2))))))))))))))"

text \<open>
  The claim as \<open>Execute\<close> looks it up: the four annotations removed, the namespace
  mapped. And the entry of a key in a Go map, if there is one.
\<close>

definition preparedClaim ::
  "PersistentVolumeClaim RestoreItemActionExecuteInput \<Rightarrow> PersistentVolumeClaim
     \<Rightarrow> PersistentVolumeClaim" where
  "preparedClaim input pvc0 =
     (let pvc1 = removePVCAnnotations pvc0
                   [AnnBindCompleted, AnnBoundByController, AnnStorageProvisioner, AnnSelectedNode]
      in case NamespaceMapping input (Namespace pvc1) of
           Some val \<Rightarrow> pvc1\<lparr>Namespace := val\<rparr>
         | None \<Rightarrow> pvc1)"

definition entry :: "gomap \<Rightarrow> string \<Rightarrow> string option" where
  "entry m k = (case m of None \<Rightarrow> None | Some f \<Rightarrow> f k)"

section \<open>The restore orchestrator: the mover-backup restore action\<close>

text \<open>
  The annotation keys of package \<open>util\<close>. Their declarations are not among the
  sources, so the actions take them as a parameter.
\<close>

record AnnotationKeys =
  DatamoverResticRepository :: string
  DatamoverSourcePVCName :: string
  DatamoverSourcePVCSize :: string
  CSIDriverNameAnnotation :: string
  CSIVSCDeletionPolicy :: string

text \<open>
  \<open>wait.PollImmediate\<close>: the condition runs at once and then on every tick until it
  is done, fails or the timeout has passed. How many times it can run before the timeout
  depends on the clock; \<open>ticks\<close> is the number of runs after the first. The
  condition of the \<open>i\<close>-th run is \<open>cond i\<close>; a run that panics ends the poll.
\<close>

fun poll :: "nat \<Rightarrow> nat \<Rightarrow> (nat \<Rightarrow> bool result \<times> apiCall list) \<Rightarrow> unit result \<times> apiCall list" where
  "poll 0 i cond = (Failed ErrWaitTimeout, [])"
| "poll (Suc n) i cond =
     (case cond i of
        (Failed err, calls) \<Rightarrow> (Failed err, calls)
      | (Panic, calls) \<Rightarrow> (Panic, calls)
      | (Return done, calls) \<Rightarrow>
          if done then (Return (), calls)
          else (case poll n (Suc i) cond of (r, later) \<Rightarrow> (r, calls @ later)))"

definition PollImmediate :: "nat \<Rightarrow> (nat \<Rightarrow> bool result \<times> apiCall list) \<Rightarrow> unit result \<times> apiCall list" where
  "PollImmediate ticks cond = poll (Suc ticks) 0 cond"

text \<open>
  The condition function of \<open>util.IsDataMoverRestoreCompleted\<close>, run against what the
  cluster holds at that moment. \<open>repDestination.Spec.Trigger\<close> is a pointer, read only
  once the status and the last sync time are there.
\<close>

definition restoreCondition ::
  "RestoreCluster \<Rightarrow> string \<Rightarrow> string \<Rightarrow> string \<Rightarrow> bool result \<times> apiCall list" where
  "restoreCondition cl datamoverNS dataMoverRestoreName protectedNS =
     (case Get (DataMoverRestores cl) datamoverNS dataMoverRestoreName of
        Inl err \<Rightarrow>
          (Failed (Wrapf err (''failed to get datamoverrestore '' @ dataMoverRestoreName)),
           [GetDataMoverRestore datamoverNS dataMoverRestoreName])
      | Inr dmr \<Rightarrow>
          (let repDestinationName = Name dmr @ ''-rep-dest'';
               calls = [GetDataMoverRestore datamoverNS dataMoverRestoreName,
                        GetReplicationDestination protectedNS repDestinationName]
           in
           (case Get (ReplicationDestinations cl) protectedNS repDestinationName of
              Inl err \<Rightarrow> (Return False, calls)
            | Inr repDestination \<Rightarrow>
                (case rd_Status repDestination of
                   None \<Rightarrow> (Return False, calls)
                 | Some status \<Rightarrow>
                     (case LastSyncTime status of
                        None \<Rightarrow> (Return False, calls)
                      | Some t \<Rightarrow>
                          (case rd_Trigger repDestination of
                             None \<Rightarrow> (Panic, calls)
                           | Some trigger \<Rightarrow>
                               if Manual trigger = LastManualSync status
                               then (Return True, calls)
                               else (Return False, calls)))))))"

text \<open>
  \<open>util.IsDataMoverRestoreCompleted\<close>. \<open>observed i\<close> is the cluster as the
  \<open>i\<close>-th run of the condition finds it.
\<close>

definition IsDataMoverRestoreCompleted ::
  "RestoreCluster \<Rightarrow> (nat \<Rightarrow> RestoreCluster) \<Rightarrow> nat \<Rightarrow> string \<Rightarrow> string \<Rightarrow> string
     \<Rightarrow> bool result \<times> apiCall list" where
  "IsDataMoverRestoreCompleted cl observed ticks datamoverNS dataMoverRestoreName protectedNS =
     (case GetDatamoverClient cl of
        Some err \<Rightarrow> (Failed err, [])
      | None \<Rightarrow>
          (case GetReplicationDestinationClient cl of
             Some err \<Rightarrow> (Failed err, [])
           | None \<Rightarrow>
               (case PollImmediate ticks
                       (\<lambda>i. restoreCondition (observed i) datamoverNS dataMoverRestoreName protectedNS) of
                  (Failed err, calls) \<Rightarrow> (Failed err, calls)
                | (Panic, calls) \<Rightarrow> (Panic, calls)
                | (Return u, calls) \<Rightarrow> (Return True, calls))))"

text \<open>
  \<open>DataMoverRestoreItemAction.Execute\<close>, the version that reads the annotations and
  waits for the restore.
\<close>

definition DataMoverRestoreItemAction_Execute ::
  "AnnotationKeys \<Rightarrow> RestoreCluster \<Rightarrow> (nat \<Rightarrow> RestoreCluster) \<Rightarrow> nat
     \<Rightarrow> DataMoverBackup RestoreItemActionExecuteInput
     \<Rightarrow> DataMoverBackup RestoreItemActionExecuteOutput result \<times> apiCall list" where
  "DataMoverRestoreItemAction_Execute keys cl observed ticks input =
     (case RestoreItem input of
        Inl err \<Rightarrow> (Failed (Wrapf err ''failed to convert DMB input.Item from unstructured''), [])
      | Inr dmb \<Rightarrow>
          (case GetDatamoverClient cl of
             Some err \<Rightarrow> (Failed err, [])
           | None \<Rightarrow>
               (let dmr = \<lparr>Name = ''dmr-'' @ index (Annotations dmb) (DatamoverSourcePVCName keys),
                           Namespace = Namespace dmb, Labels = None, Annotations = None,
                           dmr_ResticSecretRef_Name = ''restic-secret'',
                           dmr_DataMoverBackupref =
                             \<lparr>BackedUpPVCData =
                                \<lparr>pvc_Name = index (Annotations dmb) (DatamoverSourcePVCName keys),
                                 pvc_Size = index (Annotations dmb) (DatamoverSourcePVCSize keys)\<rparr>,
                              ResticRepository =
                                index (Annotations dmb) (DatamoverResticRepository keys)\<rparr>,
                           dmr_ProtectedNamespace = dmb_ProtectedNamespace dmb\<rparr>
                in
                (case CreateDMR cl dmr of
                   Some err \<Rightarrow>
                     (Failed (Wrapf err ''error creating datamoverrestore CR''),
                      [CreateDataMoverRestore dmr])
                 | None \<Rightarrow>
                     (case IsDataMoverRestoreCompleted cl observed ticks (Namespace dmr) (Name dmr)
                             (dmr_ProtectedNamespace dmr) of
                        (Failed err, calls) \<Rightarrow>
                          (Failed (WithStack err), CreateDataMoverRestore dmr # calls)
                      | (Panic, calls) \<Rightarrow> (Panic, CreateDataMoverRestore dmr # calls)
                      | (Return dataMoverRestoreCompleted, calls) \<Rightarrow>
                          if \<not> dataMoverRestoreCompleted
                          then (Failed (ErrorString ''datamoverRestore never completed''),
                                CreateDataMoverRestore dmr # calls)
                          else (Return emptyOutput, CreateDataMoverRestore dmr # calls))))))"

text \<open>
  The state the orchestrator waits for, in the words of its description: the
  mover-restore request exists, a replication target named after it with the suffix
  \<open>-rep-dest\<close> exists in the protected namespace, and the target has a last sync time
  and a manual trigger equal to its last manual sync.
\<close>

definition restoreCompleted :: "RestoreCluster \<Rightarrow> string \<Rightarrow> string \<Rightarrow> string \<Rightarrow> bool" where
  "restoreCompleted cl datamoverNS requestName protectedNS =
     (case DataMoverRestores cl (datamoverNS, requestName) of
        Inl err \<Rightarrow> False
      | Inr dmr \<Rightarrow>
          (case ReplicationDestinations cl (protectedNS, requestName @ ''-rep-dest'') of
             Inl err \<Rightarrow> False
           | Inr target \<Rightarrow>
               (case rd_Status target of
                  None \<Rightarrow> False
                | Some status \<Rightarrow>
                    (case rd_Trigger target of
                       None \<Rightarrow> False
                     | Some trigger \<Rightarrow>
                         LastSyncTime status \<noteq> None \<and> Manual trigger = LastManualSync status))))"

section \<open>The static binding rewriter: the Snapshot restore action\<close>







section \<open>The backup of a SnapshotContent: \<open>internal/backup/volumesnapshotcontent_action.go\<close>\<close>

text \<open>
  \<open>util.DoesDataMoverBackupExistForVSC\<close>: one \<open>Get\<close> of the DataMoverBackup
  \<open>dmb-<snapshot name>\<close> in the namespace of the content. Every error of the \<open>Get\<close>,
  not-found too, is returned with \<open>false\<close>; the final \<open>return false, err\<close> returns
  the nil error of the \<open>Get\<close>.
\<close>

definition DoesDataMoverBackupExistForVSC ::
  "error option \<Rightarrow> (string \<times> string \<Rightarrow> error + DataMoverBackup) \<Rightarrow> VolumeSnapshotContent
     \<Rightarrow> (bool \<times> error option) \<times> apiCall list" where
  "DoesDataMoverBackupExistForVSC datamoverClient dataMoverBackups volSnap =
     (case datamoverClient of
        Some err \<Rightarrow> ((False, Some err), [])
      | None \<Rightarrow>
          (let name = ''dmb-'' @ ref_Name (VolumeSnapshotRef (vsc_Spec volSnap));
               calls = [GetDataMoverBackup (Namespace volSnap) name]
           in
           (case Get dataMoverBackups (Namespace volSnap) name of
              Inl err \<Rightarrow> ((False, Some err), calls)
            | Inr dmb \<Rightarrow>
                if length (dmb_VolumeSnapshotContent_Name dmb) > 0
                   \<and> dmb_VolumeSnapshotContent_Name dmb = Name volSnap
                then ((True, None), calls)
                else ((False, None), calls))))"

text \<open>
  What the cluster answers during one call of the backup action: the error of
  \<open>util.GetDatamoverClient\<close>, the error of the client of the existence check, and the
  error with which the API server refuses the create of an object for a reason of its own.
  The VolumeSnapshotBackup objects of the cluster are passed beside it, as a list, and
  returned updated.
\<close>

record BackupCluster =
  bk_GetDatamoverClient :: "error option"
  bk_GetVolumeSnapshotMoverClient :: "error option"
  bk_Refuse :: "VolumeSnapshotBackup \<Rightarrow> error option"

text \<open>
  \<open>client.Create\<close>: refused, or \<open>AlreadyExists\<close> when the cluster holds an object of
  this namespace and name, or the object is added.
\<close>

definition Create ::
  "BackupCluster \<Rightarrow> VolumeSnapshotBackup list \<Rightarrow> VolumeSnapshotBackup
     \<Rightarrow> error option \<times> VolumeSnapshotBackup list" where
  "Create cl objects vsb =
     (case bk_Refuse cl vsb of
        Some err \<Rightarrow> (Some err, objects)
      | None \<Rightarrow>
          if list_ex (\<lambda>obj. Namespace obj = Namespace vsb \<and> Name obj = Name vsb) objects
          then (Some (StatusError StatusReasonAlreadyExists), objects)
          else (None, objects @ [vsb]))"

text \<open>
  Modelled from the spec: \<open>util.DoesVolumeSnapshotBackupExistForVSC\<close>, which the action
  calls and which is not among the sources; \<open>DoesDataMoverBackupExistForVSC\<close> above is its
  like for the DataMoverBackup. By the specification it "checks whether a
  MoverBackupRequest already exists whose recorded SnapshotContent reference equals
  \<open>C\<close>'s name". An error of its client is returned with \<open>false\<close>, as in every
  function of \<open>util\<close>.
\<close>

definition DoesVolumeSnapshotBackupExistForVSC ::
  "BackupCluster \<Rightarrow> VolumeSnapshotBackup list \<Rightarrow> VolumeSnapshotContent \<Rightarrow> bool \<times> error option" where
  "DoesVolumeSnapshotBackupExistForVSC cl objects snapCont =
     (case bk_GetVolumeSnapshotMoverClient cl of
        Some err \<Rightarrow> (False, Some err)
      | None \<Rightarrow>
          (list_ex (\<lambda>vsb. vsb_VolumeSnapshotContent_Name vsb = Name snapCont) objects, None))"

text \<open>
  The keys \<open>util.PrefixedSnapshotterSecretNameKey\<close> and
  \<open>util.PrefixedSnapshotterSecretNamespaceKey\<close>, whose values are not among the sources.
\<close>

record SecretKeys =
  PrefixedSnapshotterSecretNameKey :: string
  PrefixedSnapshotterSecretNamespaceKey :: string

definition IsVolumeSnapshotContentHasDeleteSecret :: "SecretKeys \<Rightarrow> VolumeSnapshotContent \<Rightarrow> bool" where
  "IsVolumeSnapshotContentHasDeleteSecret keys vsc =
     (let nameExists = snd (commaOk (Annotations vsc) (PrefixedSnapshotterSecretNameKey keys));
          nsExists = snd (commaOk (Annotations vsc) (PrefixedSnapshotterSecretNamespaceKey keys))
      in nameExists \<and> nsExists)"

text \<open>
  \<open>VolumeSnapshotContentBackupItemAction.Execute\<close>. \<open>item\<close> is what
  \<open>FromUnstructured\<close> makes of the item, \<open>backupNamespace\<close> is \<open>backup.Namespace\<close>.
  The error of \<open>util.GetDatamoverClient\<close> is overwritten by the one of the create, so
  with an error there the create is called on the nil client and panics. The result is
  the item and the additional items, beside the calls made and the objects of the
  cluster afterwards.
\<close>

definition VolumeSnapshotContentBackupItemAction_Execute ::
  "SecretKeys \<Rightarrow> BackupCluster \<Rightarrow> VolumeSnapshotBackup list
     \<Rightarrow> error + VolumeSnapshotContent \<Rightarrow> string
     \<Rightarrow> (VolumeSnapshotContent \<times> ResourceIdentifier list) result
         \<times> apiCall list \<times> VolumeSnapshotBackup list" where
  "VolumeSnapshotContentBackupItemAction_Execute keys cl objects item backupNamespace =
     (case item of
        Inl err \<Rightarrow> (Failed (WithStack err), [], objects)
      | Inr snapCont \<Rightarrow>
          (let vsb = \<lparr>Name = ''vsb-'' @ ref_Name (VolumeSnapshotRef (vsc_Spec snapCont)),
                      Namespace = ref_Namespace (VolumeSnapshotRef (vsc_Spec snapCont)),
                      Labels = None, Annotations = None,
                      vsb_VolumeSnapshotContent_Name = Name snapCont,
                      vsb_ProtectedNamespace = backupNamespace\<rparr>;
               additionalItems =
                 (if IsVolumeSnapshotContentHasDeleteSecret keys snapCont
                  then [\<lparr>Group = [], Resource = ''secrets'',
                         ri_Namespace = index (Annotations snapCont)
                                          (PrefixedSnapshotterSecretNamespaceKey keys),
                         ri_Name = index (Annotations snapCont)
                                     (PrefixedSnapshotterSecretNameKey keys)\<rparr>]
                  else [])
                 @ [\<lparr>Group = ''datamover.oadp.openshift.io'', Resource = ''volumesnapshotbackup'',
                     ri_Namespace = Namespace vsb, ri_Name = Name vsb\<rparr>]
           in
           (case DoesVolumeSnapshotBackupExistForVSC cl objects snapCont of
              (VSBExists, Some err) \<Rightarrow> (Failed (WithStack err), [], objects)
            | (VSBExists, None) \<Rightarrow>
                if \<not> VSBExists then
                  (case bk_GetDatamoverClient cl of
                     Some err \<Rightarrow> (Panic, [], objects)
                   | None \<Rightarrow>
                       (case Create cl objects vsb of
                          (Some err, objects') \<Rightarrow>
                            (Failed (Wrapf err ''error creating volumesnapshotbackup CR''),
                             [CreateVolumeSnapshotBackup vsb], objects')
                        | (None, objects') \<Rightarrow>
                            (Return (snapCont, additionalItems),
                             [CreateVolumeSnapshotBackup vsb], objects')))
                else (Return (snapCont, additionalItems), [], objects))))"

section \<open>Concrete inputs\<close>

text \<open>Small inputs on which the theorems below are evaluated.\<close>

definition ex_sha256hex :: "string \<Rightarrow> string" where
  "ex_sha256hex s = ''0123456789abcdef0123456789abcdef0123456789abcdef0123456789abcdef''"

definition ex_ref :: ObjectReference where
  "ex_ref = \<lparr>ref_Kind = ''VolumeSnapshot'', ref_Namespace = ''app'', ref_Name = ''snap-1''\<rparr>"

definition ex_snapCont :: VolumeSnapshotContent where
  "ex_snapCont =
     \<lparr>Name = ''snapcontent-1'', Namespace = [],
      Labels = Some [BackupNameLabel \<mapsto> ''backup-1''], Annotations = None,
      vsc_Spec = \<lparr>DeletionPolicy = ''Retain'', Driver = ''csi.example.com'',
                  VolumeSnapshotRef = ex_ref, Source_SnapshotHandle = None\<rparr>,
      vsc_Status = None\<rparr>"

definition ex_cluster_gone :: DeleteCluster where
  "ex_cluster_gone =
     \<lparr>GetClients = None,
      Patch = (\<lambda>n b. Some (StatusError StatusReasonNotFound)),
      Delete = (\<lambda>n. Some (StatusError StatusReasonNotFound))\<rparr>"

definition ex_cluster_patched :: DeleteCluster where
  "ex_cluster_patched =
     \<lparr>GetClients = None,
      Patch = (\<lambda>n b. None),
      Delete = (\<lambda>n. Some (StatusError StatusReasonNotFound))\<rparr>"

definition Gi :: "rat \<Rightarrow> Quantity" where
  "Gi n = \<lparr>amount = n * 1073741824, format = BinarySI\<rparr>"

definition ex_MustParse :: "string \<Rightarrow> Quantity option" where
  "ex_MustParse s = (if s = ''8Gi'' then Some (Gi 8) else None)"

definition ex_dmr :: "string \<Rightarrow> DataMoverRestore" where
  "ex_dmr claim =
     \<lparr>Name = ''dmr-'' @ claim, Namespace = ''app'', Labels = None, Annotations = None,
      dmr_ResticSecretRef_Name = ''restic-secret'',
      dmr_DataMoverBackupref =
        \<lparr>BackedUpPVCData = \<lparr>pvc_Name = claim, pvc_Size = ''8Gi''\<rparr>,
         ResticRepository = ''s3:bucket/repo''\<rparr>,
      dmr_ProtectedNamespace = ''openshift-adp''\<rparr>"

definition ex_repDest :: "string \<Rightarrow> string \<Rightarrow> ReplicationDestination" where
  "ex_repDest name img =
     \<lparr>Name = name, Namespace = ''openshift-adp'', Labels = None, Annotations = None,
      rd_Trigger = Some \<lparr>Manual = ''once''\<rparr>,
      rd_Status = Some \<lparr>LastSyncTime = Some 1, LastManualSync = ''once'',
                        LatestImage = Some \<lparr>tl_APIGroup = Some SchemeGroupVersion_Group,
                                             tl_Kind = ''VolumeSnapshot'', tl_Name = img\<rparr>\<rparr>\<rparr>"

text \<open>A cluster that holds the completed chain of exactly one claim, named \<open>claim\<close>.\<close>

definition ex_restoreCluster :: "string \<Rightarrow> RestoreCluster" where
  "ex_restoreCluster claim =
     \<lparr>GetDatamoverClient = None, GetReplicationDestinationClient = None,
      GetSnapshotClients = None,
      DataMoverRestores = (\<lambda>k. if k = (''app'', ''dmr-'' @ claim) then Inr (ex_dmr claim)
                                else Inl (StatusError StatusReasonNotFound)),
      VolumeSnapshotRestores = (\<lambda>k. Inl (StatusError StatusReasonNotFound)),
      ReplicationDestinations =
        (\<lambda>k. if k = (''openshift-adp'', ''dmr-'' @ claim @ ''-rep-dest'')
              then Inr (ex_repDest (''dmr-'' @ claim @ ''-rep-dest'') (''snap-of-'' @ claim))
              else Inl (StatusError StatusReasonNotFound)),
      VolumeSnapshots = (\<lambda>k. Inl (StatusError StatusReasonNotFound)),
      VolumeSnapshotContents = (\<lambda>k. Inl (StatusError StatusReasonNotFound)),
      GetVolumeSnapshotMoverClient = None,
      CreateVSC = Inr, CreateDMR = (\<lambda>d. None),
      MustParse = ex_MustParse, fmtVerbs = id, ToUnstructured = None\<rparr>"

definition ex_pvc :: "string \<Rightarrow> PersistentVolumeClaim" where
  "ex_pvc claim =
     \<lparr>Name = claim, Namespace = ''app'', Labels = None,
      Annotations = Some [AnnBindCompleted \<mapsto> ''yes'', AnnSelectedNode \<mapsto> ''node-1'',
                          ''team'' \<mapsto> ''db''],
      VolumeName = ''pv-0001'', DataSource = None,
      Requests = Some [ResourceStorage \<mapsto> Gi 5]\<rparr>"

definition ex_pvcInput :: "string \<Rightarrow> PersistentVolumeClaim RestoreItemActionExecuteInput" where
  "ex_pvcInput claim =
     \<lparr>RestoreItem = Inr (ex_pvc claim), Restore_Name = ''restore-1'',
      NamespaceMapping = Map.empty\<rparr>"

definition ex_keys :: AnnotationKeys where
  "ex_keys =
     \<lparr>DatamoverResticRepository = ''datamover.io/restic-repository'',
      DatamoverSourcePVCName = ''datamover.io/source-pvc-name'',
      DatamoverSourcePVCSize = ''datamover.io/source-pvc-size'',
      CSIDriverNameAnnotation = ''velero.io/csi-driver-name'',
      CSIVSCDeletionPolicy = ''velero.io/csi-vsc-deletion-policy''\<rparr>"

definition ex_dmb :: DataMoverBackup where
  "ex_dmb =
     \<lparr>Name = ''dmb-snap-1'', Namespace = ''app'', Labels = None,
      Annotations = Some [''datamover.io/source-pvc-name'' \<mapsto> ''mssql-pvc'',
                          ''datamover.io/source-pvc-size'' \<mapsto> ''8Gi'',
                          ''datamover.io/restic-repository'' \<mapsto> ''s3:bucket/repo''],
      dmb_VolumeSnapshotContent_Name = ''snapcontent-1'',
      dmb_ProtectedNamespace = ''openshift-adp''\<rparr>"

text \<open>The first run of the condition finds no replication destination, the later ones do.\<close>

definition ex_observed :: "nat \<Rightarrow> RestoreCluster" where
  "ex_observed i =
     (if i = 0
      then (ex_restoreCluster ''mssql-pvc'')
             \<lparr>ReplicationDestinations := (\<lambda>k. Inl (StatusError StatusReasonNotFound))\<rparr>
      else ex_restoreCluster ''mssql-pvc'')"

definition ex_dmbInput :: "DataMoverBackup RestoreItemActionExecuteInput" where
  "ex_dmbInput =
     \<lparr>RestoreItem = Inr ex_dmb, Restore_Name = ''restore-1'', NamespaceMapping = Map.empty\<rparr>"









text \<open>
  A cluster that answers every call of the backup action, and the keys of the
  snapshotter's secret annotations.
\<close>

definition ex_backupCluster :: BackupCluster where
  "ex_backupCluster =
     \<lparr>bk_GetDatamoverClient = None, bk_GetVolumeSnapshotMoverClient = None,
      bk_Refuse = (\<lambda>vsb. None)\<rparr>"

definition ex_secretKeys :: SecretKeys where
  "ex_secretKeys =
     \<lparr>PrefixedSnapshotterSecretNameKey = ''snapshot.storage.kubernetes.io/deletion-secret-name'',
      PrefixedSnapshotterSecretNamespaceKey =
        ''snapshot.storage.kubernetes.io/deletion-secret-namespace''\<rparr>"

definition ex_vsb :: VolumeSnapshotBackup where
  "ex_vsb =
     \<lparr>Name = ''vsb-snap-1'', Namespace = ''app'', Labels = None, Annotations = None,
      vsb_VolumeSnapshotContent_Name = ''snapcontent-1'',
      vsb_ProtectedNamespace = ''openshift-adp''\<rparr>"



section \<open>Properties\<close>

subsection \<open>White space and label names\<close>

lemma trailingSpace_pos: "trailingSpace s \<noteq> 0 \<Longrightarrow> s \<noteq> []"
  by (auto simp: trailingSpace_def)

lemma leadingSpace_pos: "leadingSpace s \<noteq> 0 \<Longrightarrow> s \<noteq> []"
  by (auto simp: leadingSpace_def)

lemma trimLeft_done: "length s \<le> n \<Longrightarrow> leadingSpace (trimLeft n s) = 0"
proof (induction n arbitrary: s)
  case 0
  then show ?case by (simp add: leadingSpace_def)
next
  case (Suc n)
  show ?case
  proof (cases "leadingSpace s = 0")
    case True
    then show ?thesis by simp
  next
    case False
    then have "s \<noteq> []" by (rule leadingSpace_pos)
    with False Suc.prems have "length (drop (leadingSpace s) s) \<le> n" by (cases s) auto
    with False Suc.IH show ?thesis by simp
  qed
qed

lemma trimRight_done: "length s \<le> n \<Longrightarrow> trailingSpace (trimRight n s) = 0"
proof (induction n arbitrary: s)
  case 0
  then show ?case by (simp add: trailingSpace_def)
next
  case (Suc n)
  show ?case
  proof (cases "trailingSpace s = 0")
    case True
    then show ?thesis by simp
  next
    case False
    then have "s \<noteq> []" by (rule trailingSpace_pos)
    with False Suc.prems have "length (take (length s - trailingSpace s) s) \<le> n" by (cases s) auto
    with False Suc.IH show ?thesis by simp
  qed
qed

lemma TrimSpace_Nil: "TrimSpace [] = []"
  by (simp add: TrimSpace_def)

lemma GetValidName_nonempty: "label \<noteq> [] \<Longrightarrow> GetValidName h label \<noteq> []"
  by (auto simp: GetValidName_def DNS1035LabelMaxLength_def)

text \<open>
  A name that is not blank is not empty, so its valid name is not empty either, and a
  label map without the backup-name key (which reads as the empty string) never matches.
\<close>

lemma HasBackupLabel_iff:
  "HasBackupLabel h o' b \<longleftrightarrow>
     TrimSpace b \<noteq> [] \<and> (\<exists>ls. Labels o' = Some ls \<and> ls BackupNameLabel = Some (GetValidName h b))"
proof (cases "TrimSpace b = []")
  case True
  then show ?thesis by (simp add: HasBackupLabel_def)
next
  case False
  then have "b \<noteq> []" using TrimSpace_Nil by auto
  then have "GetValidName h b \<noteq> []" by (rule GetValidName_nonempty)
  with False show ?thesis
    by (auto simp: HasBackupLabel_def index_def split: option.splits)
qed

subsection \<open>The deletion guard\<close>

lemma Execute_skips:
  assumes "Item input = Inr snapCont" "\<not> HasBackupLabel h snapCont (Backup_Name input)"
  shows "VolumeSnapshotContentDeleteItemAction_Execute h cl input = (Return (), [])"
  using assms by (simp add: VolumeSnapshotContentDeleteItemAction_Execute_def)

lemma Execute_calls_need_label:
  assumes "Item input = Inr snapCont"
    and "snd (VolumeSnapshotContentDeleteItemAction_Execute h cl input) \<noteq> []"
  shows "HasBackupLabel h snapCont (Backup_Name input)"
  using assms by (auto simp: VolumeSnapshotContentDeleteItemAction_Execute_def split: if_splits)

text \<open>
  C1. For a SnapshotContent item and any backup name: if the content has no labels, or
  its labels lack the backup-name key, or the backup name is empty or only white space,
  \<open>Execute\<close> returns nil and makes no call; and whenever \<open>Execute\<close> makes a call
  (a patch or a delete), the name is not blank and the labels map the backup-name key
  to the valid name of the backup.
\<close>

theorem deletion_guard_ownership:
  assumes "Item input = Inr snapCont"
  shows "(Labels snapCont = None
          \<or> (\<exists>ls. Labels snapCont = Some ls \<and> ls BackupNameLabel = None)
          \<or> TrimSpace (Backup_Name input) = []
          \<longrightarrow> VolumeSnapshotContentDeleteItemAction_Execute h cl input = (Return (), []))
       \<and> (snd (VolumeSnapshotContentDeleteItemAction_Execute h cl input) \<noteq> []
          \<longrightarrow> TrimSpace (Backup_Name input) \<noteq> []
              \<and> (\<exists>ls. Labels snapCont = Some ls
                    \<and> ls BackupNameLabel = Some (GetValidName h (Backup_Name input))))"
proof -
  let ?run = "VolumeSnapshotContentDeleteItemAction_Execute h cl input"
  have skip: "?run = (Return (), [])"
    if "\<not> HasBackupLabel h snapCont (Backup_Name input)"
    using assms that by (rule Execute_skips)
  have need: "HasBackupLabel h snapCont (Backup_Name input)" if "snd ?run \<noteq> []"
    using assms that by (rule Execute_calls_need_label)
  show ?thesis
    using skip need unfolding HasBackupLabel_iff by auto
qed

text \<open>
A labelled content and the backup name of one space.
\<close>

lemma ex_blank: "TrimSpace '' '' = []"
  by (simp add: TrimSpace_def leadingSpace_def asciiSpace_def)

theorem deletion_guard_ownership_witness:
  "Labels ex_snapCont = Some [BackupNameLabel \<mapsto> ''backup-1'']
   \<and> TrimSpace '' '' = []
   \<and> VolumeSnapshotContentDeleteItemAction_Execute ex_sha256hex ex_cluster_patched
        \<lparr>Item = Inr ex_snapCont, Backup_Name = '' ''\<rparr> = (Return (), [])"
proof -
  have a: "Item \<lparr>Item = Inr ex_snapCont, Backup_Name = '' ''\<rparr> = Inr ex_snapCont" by simp
  from deletion_guard_ownership [OF a, of ex_sha256hex ex_cluster_patched] ex_blank
  have "VolumeSnapshotContentDeleteItemAction_Execute ex_sha256hex ex_cluster_patched
        \<lparr>Item = Inr ex_snapCont, Backup_Name = '' ''\<rparr> = (Return (), [])"
    by simp
  then show ?thesis using ex_blank by (simp add: ex_snapCont_def)
qed

text \<open>
  C3. When the label matches, the clients are there and the patch went through, a
  delete that fails with not-found makes \<open>Execute\<close> return nil; any other delete error
  is returned as it is.
\<close>

theorem delete_not_found_is_success:
  assumes "Item input = Inr snapCont"
    and "HasBackupLabel h snapCont (Backup_Name input)"
    and "GetClients cl = None"
    and "Patch cl (Name snapCont) deletionPolicyPatch = None"
    and "Delete cl (Name snapCont) = Some err"
  shows "fst (VolumeSnapshotContentDeleteItemAction_Execute h cl input)
           = (if IsNotFound err then Return () else Failed err)"
  using assms
  by (simp add: VolumeSnapshotContentDeleteItemAction_Execute_def
      SetVolumeSnapshotContentDeletionPolicy_def)

text \<open>
The labelled content carries the label of \<open>backup-1\<close>.
\<close>

lemma ex_label: "HasBackupLabel ex_sha256hex ex_snapCont ''backup-1''"
  unfolding HasBackupLabel_iff
  by (simp add: ex_snapCont_def GetValidName_def DNS1035LabelMaxLength_def TrimSpace_def
      leadingSpace_def trailingSpace_def asciiSpace_def unicodeSpaces_def)

text \<open>
  C10. When the patch fails with not-found, the warning dereferences
  \<open>snapCont.Status.SnapshotHandle\<close>: with a nil status or a nil handle \<open>Execute\<close>
  panics after the patch call, and does not return nil.
\<close>

theorem not_found_warning_panics:
  assumes "Item input = Inr snapCont"
    and "HasBackupLabel h snapCont (Backup_Name input)"
    and "GetClients cl = None"
    and "Patch cl (Name snapCont) deletionPolicyPatch = Some err"
    and "IsNotFound err"
    and "vsc_Status snapCont = None
         \<or> (\<exists>st. vsc_Status snapCont = Some st \<and> SnapshotHandle st = None)"
  shows "VolumeSnapshotContentDeleteItemAction_Execute h cl input
           = (Panic, [PatchVolumeSnapshotContent (Name snapCont) deletionPolicyPatch])"
  using assms
  by (auto simp: VolumeSnapshotContentDeleteItemAction_Execute_def
      SetVolumeSnapshotContentDeletionPolicy_def)


theorem delete_not_found_is_success_witness:
  "HasBackupLabel ex_sha256hex ex_snapCont ''backup-1''
   \<and> Delete ex_cluster_patched (Name ex_snapCont) = Some (StatusError StatusReasonNotFound)
   \<and> fst (VolumeSnapshotContentDeleteItemAction_Execute ex_sha256hex ex_cluster_patched
             \<lparr>Item = Inr ex_snapCont, Backup_Name = ''backup-1''\<rparr>) = Return ()"
proof -
  let ?input = "\<lparr>Item = Inr ex_snapCont, Backup_Name = ''backup-1''\<rparr>"
  have a: "Item ?input = Inr ex_snapCont" by simp
  have b: "HasBackupLabel ex_sha256hex ex_snapCont (Backup_Name ?input)"
    using ex_label by simp
  have c: "GetClients ex_cluster_patched = None" by (simp add: ex_cluster_patched_def)
  have d: "Patch ex_cluster_patched (Name ex_snapCont) deletionPolicyPatch = None"
    by (simp add: ex_cluster_patched_def)
  have e: "Delete ex_cluster_patched (Name ex_snapCont) = Some (StatusError StatusReasonNotFound)"
    by (simp add: ex_cluster_patched_def)
  from delete_not_found_is_success [OF a b c d e] ex_label e show ?thesis by simp
qed

theorem not_found_warning_panics_witness:
  "vsc_Status (ex_snapCont\<lparr>vsc_Status := Some \<lparr>SnapshotHandle = None\<rparr>\<rparr>)
     = Some \<lparr>SnapshotHandle = None\<rparr>
   \<and> IsNotFound (StatusError StatusReasonNotFound)
   \<and> VolumeSnapshotContentDeleteItemAction_Execute ex_sha256hex ex_cluster_gone
        \<lparr>Item = Inr (ex_snapCont\<lparr>vsc_Status := Some \<lparr>SnapshotHandle = None\<rparr>\<rparr>),
         Backup_Name = ''backup-1''\<rparr>
       = (Panic, [PatchVolumeSnapshotContent ''snapcontent-1'' deletionPolicyPatch])"
proof -
  let ?sc = "ex_snapCont\<lparr>vsc_Status := Some \<lparr>SnapshotHandle = None\<rparr>\<rparr>"
  let ?input = "\<lparr>Item = Inr ?sc, Backup_Name = ''backup-1''\<rparr>"
  have a: "Item ?input = Inr ?sc" by simp
  have b: "HasBackupLabel ex_sha256hex ?sc (Backup_Name ?input)"
    using ex_label by (auto simp: HasBackupLabel_def split: if_splits)
  have c: "GetClients ex_cluster_gone = None" by (simp add: ex_cluster_gone_def)
  have d: "Patch ex_cluster_gone (Name ?sc) deletionPolicyPatch
             = Some (StatusError StatusReasonNotFound)"
    by (simp add: ex_cluster_gone_def)
  have e: "IsNotFound (StatusError StatusReasonNotFound)" by simp
  have f: "vsc_Status ?sc = None
           \<or> (\<exists>st. vsc_Status ?sc = Some st \<and> SnapshotHandle st = None)"
    by simp
  from not_found_warning_panics [OF a b c d e f] show ?thesis
    by (simp add: ex_snapCont_def)
qed

text \<open>
  C2, at the input where it fails: the labelled content has no status and the patch
  answers not-found. The claim has \<open>Execute\<close> return nil there; it panics.
\<close>

theorem policy_flip_not_found_nil_status:
  "VolumeSnapshotContentDeleteItemAction_Execute ex_sha256hex ex_cluster_gone
     \<lparr>Item = Inr ex_snapCont, Backup_Name = ''backup-1''\<rparr>
   = (Panic, [PatchVolumeSnapshotContent ''snapcontent-1'' deletionPolicyPatch])"
  using ex_label
  by (simp add: VolumeSnapshotContentDeleteItemAction_Execute_def
      SetVolumeSnapshotContentDeletionPolicy_def ex_cluster_gone_def)
    (simp add: ex_snapCont_def)

text \<open>
  The order of the calls: a delete call is always the second call, after the patch, and
  only after a patch that succeeded; a patch that failed is never followed by a delete;
  and the not-found branch returns nil when the handle is set.
\<close>

lemma patch_precedes_delete:
  assumes "Item input = Inr snapCont"
    and "DeleteVolumeSnapshotContent n
           \<in> set (snd (VolumeSnapshotContentDeleteItemAction_Execute h cl input))"
  shows "snd (VolumeSnapshotContentDeleteItemAction_Execute h cl input)
           = [PatchVolumeSnapshotContent (Name snapCont) deletionPolicyPatch,
              DeleteVolumeSnapshotContent (Name snapCont)]
         \<and> Patch cl (Name snapCont) deletionPolicyPatch = None"
  using assms
  by (auto simp: VolumeSnapshotContentDeleteItemAction_Execute_def
      SetVolumeSnapshotContentDeletionPolicy_def split: if_splits option.splits)

lemma patch_not_found_no_delete:
  assumes "Item input = Inr snapCont"
    and "Patch cl (Name snapCont) deletionPolicyPatch = Some err"
  shows "DeleteVolumeSnapshotContent n
           \<notin> set (snd (VolumeSnapshotContentDeleteItemAction_Execute h cl input))"
  using assms
  by (auto simp: VolumeSnapshotContentDeleteItemAction_Execute_def
      SetVolumeSnapshotContentDeletionPolicy_def split: if_splits option.splits)

lemma patch_not_found_returns_when_handle_set:
  assumes "Item input = Inr snapCont"
    and "HasBackupLabel h snapCont (Backup_Name input)"
    and "GetClients cl = None"
    and "Patch cl (Name snapCont) deletionPolicyPatch = Some err"
    and "IsNotFound err"
    and "vsc_Status snapCont = Some st" and "SnapshotHandle st = Some handle"
  shows "VolumeSnapshotContentDeleteItemAction_Execute h cl input
           = (Return (), [PatchVolumeSnapshotContent (Name snapCont) deletionPolicyPatch])"
  using assms
  by (simp add: VolumeSnapshotContentDeleteItemAction_Execute_def
      SetVolumeSnapshotContentDeletionPolicy_def)

subsection \<open>The claim rewrite\<close>


lemma setPVCStorageResourceRequest_storage:
  "storageRequest (setPVCStorageResourceRequest pvc Y)
     = Some (case storageRequest pvc of
               None \<Rightarrow> Y
             | Some X \<Rightarrow> if amount X < amount Y then Y else X)"
  by (auto simp: setPVCStorageResourceRequest_def storageRequest_def Cmp_def Let_def
      split: option.splits)

lemma storageRequest_preparedClaim:
  "storageRequest (preparedClaim input pvc) = storageRequest pvc"
  by (simp add: preparedClaim_def removePVCAnnotations_def storageRequest_def Let_def
      split: option.splits)

lemma storageRequest_resetPVCSpec:
  "storageRequest (resetPVCSpec pvc n) = storageRequest pvc"
  by (simp add: resetPVCSpec_def storageRequest_def)

lemma Name_preparedClaim: "Name (preparedClaim input pvc) = Name pvc"
  by (simp add: preparedClaim_def removePVCAnnotations_def Let_def split: option.splits)

lemma Name_removePVCAnnotations [simp]: "Name (removePVCAnnotations pvc r) = Name pvc"
  by (simp add: removePVCAnnotations_def split: option.splits)

lemma Namespace_removePVCAnnotations [simp]:
  "Namespace (removePVCAnnotations pvc r) = Namespace pvc"
  by (simp add: removePVCAnnotations_def split: option.splits)

text \<open>
  When \<open>Execute\<close> returns an item, every lookup succeeded, both pointers of the
  replication destination were set and the recorded size was readable; the item is the
  prepared claim with the storage request set and the spec reset.
\<close>

lemma PVC_Execute_Return:
  assumes "PVCRestoreItemAction_Execute cl input = (Return out, calls)"
  obtains pvc0 dmr rd st img Y where
    "RestoreItem input = Inr pvc0"
    "Get (DataMoverRestores cl) (Namespace (preparedClaim input pvc0))
        (Sprintf (fmtVerbs cl) (''dmr-'' @ Name pvc0)) = Inr dmr"
    "Get (ReplicationDestinations cl) (dmr_ProtectedNamespace dmr) ''dmr-mssql-pvc-rep-dest''
        = Inr rd"
    "rd_Status rd = Some st" "LatestImage st = Some img"
    "MustParse cl (pvc_Size (BackedUpPVCData (dmr_DataMoverBackupref dmr))) = Some Y"
    "out = \<lparr>UpdatedItem = Some (resetPVCSpec
               (setPVCStorageResourceRequest (preparedClaim input pvc0) Y) (tl_Name img)),
            AdditionalItems = [], SkipRestore = False\<rparr>"
  using assms that
  by (auto simp: PVCRestoreItemAction_Execute_def preparedClaim_def Let_def
      split: option.splits sum.splits)

text \<open>
  The claim \<open>mssql-pvc\<close>, requesting 5Gi, in a cluster that holds its completed chain
  with a recorded size of 8Gi.
\<close>

lemma ex_mssql_run:
  "PVCRestoreItemAction_Execute (ex_restoreCluster ''mssql-pvc'') (ex_pvcInput ''mssql-pvc'')
     = (Return \<lparr>UpdatedItem = Some (resetPVCSpec
            (setPVCStorageResourceRequest (preparedClaim (ex_pvcInput ''mssql-pvc'') (ex_pvc ''mssql-pvc'')) (Gi 8))
            ''snap-of-mssql-pvc''),
          AdditionalItems = [], SkipRestore = False\<rparr>,
        [GetDataMoverRestore ''app'' ''dmr-mssql-pvc'',
         GetReplicationDestination ''openshift-adp'' ''dmr-mssql-pvc-rep-dest''])"
  by (simp add: PVCRestoreItemAction_Execute_def preparedClaim_def Let_def ex_restoreCluster_def
      ex_pvcInput_def ex_pvc_def removePVCAnnotations_def Sprintf_def Get_def ex_dmr_def
      ex_repDest_def ex_MustParse_def)

text \<open>
  C4. \<open>setPVCStorageResourceRequest\<close> leaves a claim with the storage request
  \<open>Y\<close> when there was none or it was smaller, and with the request \<open>X\<close> it had
  otherwise. Whenever \<open>Execute\<close> returns the rewritten claim, \<open>Y\<close> is the parsed
  size recorded in the mover-restore request \<open>dmr-<claim>\<close>, and the amount requested
  is the maximum of the two amounts.
\<close>

theorem size_reconciliation:
  "storageRequest (setPVCStorageResourceRequest pvc Y)
     = Some (case storageRequest pvc of
               None \<Rightarrow> Y
             | Some X \<Rightarrow> if amount X < amount Y then Y else X)
   \<and> (RestoreItem input = Inr claim
        \<and> PVCRestoreItemAction_Execute cl input = (Return out, calls)
      \<longrightarrow> (\<exists>dmr size updated q.
             Get (DataMoverRestores cl) (Namespace (preparedClaim input claim))
                 (Sprintf (fmtVerbs cl) (''dmr-'' @ Name claim)) = Inr dmr
           \<and> MustParse cl (pvc_Size (BackedUpPVCData (dmr_DataMoverBackupref dmr))) = Some size
           \<and> UpdatedItem out = Some updated
           \<and> storageRequest updated = Some q
           \<and> q = (case storageRequest claim of
                      None \<Rightarrow> size
                    | Some X \<Rightarrow> if amount X < amount size then size else X)
           \<and> amount q = (case storageRequest claim of
                             None \<Rightarrow> amount size
                           | Some X \<Rightarrow> max (amount X) (amount size))))"
proof (intro conjI impI)
  show "storageRequest (setPVCStorageResourceRequest pvc Y)
     = Some (case storageRequest pvc of
               None \<Rightarrow> Y
             | Some X \<Rightarrow> if amount X < amount Y then Y else X)"
    by (rule setPVCStorageResourceRequest_storage)
next
  assume a: "RestoreItem input = Inr claim
        \<and> PVCRestoreItemAction_Execute cl input = (Return out, calls)"
  then have run: "PVCRestoreItemAction_Execute cl input = (Return out, calls)" by simp
  from PVC_Execute_Return [OF run] obtain pvc0 dmr rd st img size where r:
    "RestoreItem input = Inr pvc0"
    "Get (DataMoverRestores cl) (Namespace (preparedClaim input pvc0))
        (Sprintf (fmtVerbs cl) (''dmr-'' @ Name pvc0)) = Inr dmr"
    "Get (ReplicationDestinations cl) (dmr_ProtectedNamespace dmr) ''dmr-mssql-pvc-rep-dest''
        = Inr rd"
    "rd_Status rd = Some st" "LatestImage st = Some img"
    "MustParse cl (pvc_Size (BackedUpPVCData (dmr_DataMoverBackupref dmr))) = Some size"
    "out = \<lparr>UpdatedItem = Some (resetPVCSpec
               (setPVCStorageResourceRequest (preparedClaim input pvc0) size) (tl_Name img)),
            AdditionalItems = [], SkipRestore = False\<rparr>"
    by blast
  from a r(1) have eq: "pvc0 = claim" by simp
  let ?updated = "resetPVCSpec (setPVCStorageResourceRequest (preparedClaim input claim) size) (tl_Name img)"
  let ?q = "case storageRequest claim of
              None \<Rightarrow> size
            | Some X \<Rightarrow> if amount X < amount size then size else X"
  have s: "storageRequest ?updated = Some ?q"
    by (simp add: storageRequest_resetPVCSpec setPVCStorageResourceRequest_storage
        storageRequest_preparedClaim)
  have m: "amount ?q = (case storageRequest claim of
                             None \<Rightarrow> amount size
                           | Some X \<Rightarrow> max (amount X) (amount size))"
    by (auto split: option.splits)
  from r eq s m
  show "\<exists>dmr size updated q.
             Get (DataMoverRestores cl) (Namespace (preparedClaim input claim))
                 (Sprintf (fmtVerbs cl) (''dmr-'' @ Name claim)) = Inr dmr
           \<and> MustParse cl (pvc_Size (BackedUpPVCData (dmr_DataMoverBackupref dmr))) = Some size
           \<and> UpdatedItem out = Some updated
           \<and> storageRequest updated = Some q
           \<and> q = (case storageRequest claim of
                      None \<Rightarrow> size
                    | Some X \<Rightarrow> if amount X < amount size then size else X)
           \<and> amount q = (case storageRequest claim of
                             None \<Rightarrow> amount size
                           | Some X \<Rightarrow> max (amount X) (amount size))"
    by (intro exI [of _ dmr] exI [of _ size] exI [of _ ?updated] exI [of _ ?q]) simp
qed

lemma ex_storage: "storageRequest (ex_pvc ''mssql-pvc'') = Some (Gi 5)"
  by (simp add: storageRequest_def ex_pvc_def)

theorem size_reconciliation_witness:
  "storageRequest (ex_pvc ''mssql-pvc'') = Some (Gi 5)
   \<and> MustParse (ex_restoreCluster ''mssql-pvc'') ''8Gi'' = Some (Gi 8)
   \<and> (\<exists>out calls updated.
         PVCRestoreItemAction_Execute (ex_restoreCluster ''mssql-pvc'') (ex_pvcInput ''mssql-pvc'')
           = (Return out, calls)
       \<and> UpdatedItem out = Some updated \<and> storageRequest updated = Some (Gi 8))
   \<and> storageRequest (setPVCStorageResourceRequest (ex_pvc ''mssql-pvc'') (Gi 4)) = Some (Gi 5)"
proof -
  let ?cl = "ex_restoreCluster ''mssql-pvc''" and ?input = "ex_pvcInput ''mssql-pvc''"
  have a: "RestoreItem ?input = Inr (ex_pvc ''mssql-pvc'')" by (simp add: ex_pvcInput_def)
  note t = size_reconciliation [of "ex_pvc ''mssql-pvc''" "Gi 4" ?input "ex_pvc ''mssql-pvc''" ?cl]
  from t have small: "storageRequest (setPVCStorageResourceRequest (ex_pvc ''mssql-pvc'') (Gi 4)) = Some (Gi 5)"
    by (simp add: ex_storage Gi_def)
  from t a ex_mssql_run obtain dmr size updated q where w:
    "Get (DataMoverRestores ?cl) (Namespace (preparedClaim ?input (ex_pvc ''mssql-pvc'')))
                 (Sprintf (fmtVerbs ?cl) (''dmr-'' @ Name (ex_pvc ''mssql-pvc''))) = Inr dmr"
    "MustParse ?cl (pvc_Size (BackedUpPVCData (dmr_DataMoverBackupref dmr))) = Some size"
    "UpdatedItem \<lparr>UpdatedItem = Some (resetPVCSpec
            (setPVCStorageResourceRequest (preparedClaim ?input (ex_pvc ''mssql-pvc'')) (Gi 8))
            ''snap-of-mssql-pvc''),
          AdditionalItems = [], SkipRestore = False\<rparr> = Some updated"
    "storageRequest updated = Some q"
    "q = (case storageRequest (ex_pvc ''mssql-pvc'') of
                      None \<Rightarrow> size
                    | Some X \<Rightarrow> if amount X < amount size then size else X)"
    by blast
  from w(1) have "dmr = ex_dmr ''mssql-pvc''"
    by (simp add: Get_def ex_restoreCluster_def Sprintf_def ex_pvc_def preparedClaim_def
        removePVCAnnotations_def ex_pvcInput_def ex_dmr_def Let_def)
  with w(2) have "size = Gi 8"
    by (simp add: ex_restoreCluster_def ex_dmr_def ex_MustParse_def)
  with w(5) have "q = Gi 8" by (simp add: ex_storage Gi_def)
  with w(3,4) ex_mssql_run small show ?thesis
    by (simp add: ex_storage ex_restoreCluster_def ex_MustParse_def)
qed


text \<open>
  C5, at the input where it fails: the claim \<open>data\<close>, whose mover-restore request
  \<open>dmr-data\<close> and replication destination \<open>dmr-data-rep-dest\<close> are both there
  and completed. \<open>Execute\<close> asks for the destination \<open>dmr-mssql-pvc-rep-dest\<close>,
  gets not-found and returns the error; no claim is rewritten.
\<close>

theorem claim_rewrite_fails_for_other_claim:
  "Get (DataMoverRestores (ex_restoreCluster ''data'')) ''app'' ''dmr-data'' = Inr (ex_dmr ''data'')
   \<and> Get (ReplicationDestinations (ex_restoreCluster ''data'')) ''openshift-adp''
         ''dmr-data-rep-dest'' = Inr (ex_repDest ''dmr-data-rep-dest'' ''snap-of-data'')
   \<and> fst (PVCRestoreItemAction_Execute (ex_restoreCluster ''data'') (ex_pvcInput ''data''))
       = Failed (Wrapf (StatusError StatusReasonNotFound)
                   ''failed to get repDest for PVC dmr-mssql-pvc-rep-dest'')"
  by (simp add: PVCRestoreItemAction_Execute_def Let_def ex_restoreCluster_def
      ex_pvcInput_def ex_pvc_def Sprintf_def Get_def ex_dmr_def ex_repDest_def)

text \<open>
  C7, at the input where it fails: for the claim \<open>data\<close> the mover-restore request
  is looked up as \<open>dmr-data\<close>, and the replication destination as
  \<open>dmr-mssql-pvc-rep-dest\<close>, which is not \<open>dmr-data-rep-dest\<close>.
\<close>

theorem replication_destination_lookup_is_constant:
  "snd (PVCRestoreItemAction_Execute (ex_restoreCluster ''data'') (ex_pvcInput ''data''))
     = [GetDataMoverRestore ''app'' ''dmr-data'',
        GetReplicationDestination ''openshift-adp'' ''dmr-mssql-pvc-rep-dest'']"
  by (simp add: PVCRestoreItemAction_Execute_def Let_def ex_restoreCluster_def
      ex_pvcInput_def ex_pvc_def Sprintf_def Get_def ex_dmr_def ex_repDest_def)

text \<open>
  For every input the replication destination is looked up under the one constant name,
  and the mover-restore request under \<open>dmr-\<close> and the claim's name (a name without
  \<open>%\<close> is printed as it is).
\<close>

lemma rep_dest_lookup_name:
  assumes "GetReplicationDestination ns n \<in> set (snd (PVCRestoreItemAction_Execute cl input))"
  shows "n = ''dmr-mssql-pvc-rep-dest''"
  using assms
  by (auto simp: PVCRestoreItemAction_Execute_def Let_def split: option.splits sum.splits)

lemma dmr_lookup_name:
  assumes "RestoreItem input = Inr pvc"
    and "GetDataMoverRestore ns n \<in> set (snd (PVCRestoreItemAction_Execute cl input))"
  shows "n = Sprintf (fmtVerbs cl) (''dmr-'' @ Name pvc)"
  using assms
  by (auto simp: PVCRestoreItemAction_Execute_def Let_def split: option.splits sum.splits)

lemma Sprintf_plain: "CHR ''%'' \<notin> set s \<Longrightarrow> Sprintf verbs s = s"
  by (simp add: Sprintf_def)

text \<open>
  What the rewrite does once the lookups it makes succeed: the four annotations are
  gone and every other entry is kept, the volume name is empty, and the data source is
  the VolumeSnapshot named by \<open>latestImage\<close> of the destination that was read.
\<close>

lemma entry_removePVCAnnotations:
  "entry (Annotations (removePVCAnnotations pvc remove)) k
     = (if k \<in> set remove then None else entry (Annotations pvc) k)"
proof -
  have "Contains remove k = (k \<in> set remove)" by (induction remove) auto
  then show ?thesis
    by (simp add: removePVCAnnotations_def entry_def split: option.splits)
qed

lemma claim_rewrite_result:
  assumes "RestoreItem input = Inr claim"
    and "PVCRestoreItemAction_Execute cl input = (Return out, calls)"
  shows "\<exists>(dmr :: DataMoverRestore) rd st img updated.
           Get (ReplicationDestinations cl) (dmr_ProtectedNamespace dmr)
              ''dmr-mssql-pvc-rep-dest'' = Inr rd
         \<and> rd_Status rd = Some st \<and> LatestImage st = Some img
         \<and> UpdatedItem out = Some updated
         \<and> VolumeName updated = []
         \<and> DataSource updated = Some \<lparr>tl_APIGroup = Some SchemeGroupVersion_Group,
                                         tl_Kind = ''VolumeSnapshot'', tl_Name = tl_Name img\<rparr>
         \<and> Annotations updated \<noteq> None
         \<and> (\<forall>k. entry (Annotations updated) k
                  = (if k \<in> {AnnBindCompleted, AnnBoundByController,
                               AnnStorageProvisioner, AnnSelectedNode}
                     then None else entry (Annotations claim) k))"
proof -
  from PVC_Execute_Return [OF assms(2)] obtain pvc0 dmr rd st img size where r:
    "RestoreItem input = Inr pvc0"
    "Get (DataMoverRestores cl) (Namespace (preparedClaim input pvc0))
        (Sprintf (fmtVerbs cl) (''dmr-'' @ Name pvc0)) = Inr dmr"
    "Get (ReplicationDestinations cl) (dmr_ProtectedNamespace dmr) ''dmr-mssql-pvc-rep-dest''
        = Inr rd"
    "rd_Status rd = Some st" "LatestImage st = Some img"
    "MustParse cl (pvc_Size (BackedUpPVCData (dmr_DataMoverBackupref dmr))) = Some size"
    "out = \<lparr>UpdatedItem = Some (resetPVCSpec
               (setPVCStorageResourceRequest (preparedClaim input pvc0) size) (tl_Name img)),
            AdditionalItems = [], SkipRestore = False\<rparr>"
    by blast
  from assms(1) r(1) have eq: "pvc0 = claim" by simp
  let ?updated = "resetPVCSpec (setPVCStorageResourceRequest (preparedClaim input claim) size) (tl_Name img)"
  have ann: "Annotations ?updated
               = Annotations (removePVCAnnotations claim
                   [AnnBindCompleted, AnnBoundByController, AnnStorageProvisioner, AnnSelectedNode])"
    by (simp add: resetPVCSpec_def setPVCStorageResourceRequest_def preparedClaim_def Let_def
        split: option.splits)
  have some: "Annotations ?updated \<noteq> None"
    unfolding ann by (simp add: removePVCAnnotations_def split: option.splits)
  have ent: "\<forall>k. entry (Annotations ?updated) k
                  = (if k \<in> {AnnBindCompleted, AnnBoundByController,
                               AnnStorageProvisioner, AnnSelectedNode}
                     then None else entry (Annotations claim) k)"
    unfolding ann entry_removePVCAnnotations by simp
  have spec: "VolumeName ?updated = []"
    "DataSource ?updated = Some \<lparr>tl_APIGroup = Some SchemeGroupVersion_Group,
                                         tl_Kind = ''VolumeSnapshot'', tl_Name = tl_Name img\<rparr>"
    by (simp_all add: resetPVCSpec_def)
  from r(7) eq have upd: "UpdatedItem out = Some ?updated" by simp
  from r(3,4,5) upd some ent spec show ?thesis by blast
qed

subsection \<open>The restore orchestrator\<close>

text \<open>
  A poll that returns nil has seen the condition hold at one of its runs; a poll whose
  every run says "not yet" ends in the timeout error.
\<close>

lemma poll_Return:
  "poll n i cond = (Return u, calls)
     \<Longrightarrow> \<exists>j cs. i \<le> j \<and> j < i + n \<and> cond j = (Return True, cs)"
proof (induction n arbitrary: i calls)
  case 0
  then show ?case by simp
next
  case (Suc n)
  obtain r cs where c: "cond i = (r, cs)" by (cases "cond i")
  show ?case
  proof (cases r)
    case (Return d)
    show ?thesis
    proof (cases d)
      case True
      with c Return have "cond i = (Return True, cs)" by simp
      then show ?thesis by (intro exI [of _ i] exI [of _ cs]) simp
    next
      case False
      obtain r' later where p: "poll n (Suc i) cond = (r', later)"
        by (cases "poll n (Suc i) cond")
      with Suc.prems c Return False have "r' = Return u" by simp
      with p Suc.IH obtain j cs' where "Suc i \<le> j" "j < Suc i + n" "cond j = (Return True, cs')"
        by blast
      then show ?thesis by (intro exI [of _ j] exI [of _ cs']) simp
    qed
  next
    case (Failed err)
    with Suc.prems c show ?thesis by simp
  next
    case Panic
    with Suc.prems c show ?thesis by simp
  qed
qed

lemma poll_timeout:
  "(\<And>j. i \<le> j \<Longrightarrow> j < i + n \<Longrightarrow> \<exists>cs. cond j = (Return False, cs))
     \<Longrightarrow> fst (poll n i cond) = Failed ErrWaitTimeout"
proof (induction n arbitrary: i)
  case 0
  then show ?case by simp
next
  case (Suc n)
  from Suc.prems [of i] obtain cs where c: "cond i = (Return False, cs)" by auto
  have "fst (poll n (Suc i) cond) = Failed ErrWaitTimeout"
    by (rule Suc.IH) (use Suc.prems in auto)
  with c show ?case by (auto split: prod.splits)
qed

text \<open>
  The condition of the source holds exactly in the state its description names.
\<close>

lemma restoreCondition_True:
  "restoreCondition cl ns name pns = (Return True, cs) \<Longrightarrow> restoreCompleted cl ns name pns"
  by (auto simp: restoreCondition_def restoreCompleted_def Get_def Let_def
      split: sum.splits option.splits if_splits)

lemma restoreCompleted_condition:
  "restoreCompleted cl ns name pns \<Longrightarrow> fst (restoreCondition cl ns name pns) = Return True"
  by (auto simp: restoreCondition_def restoreCompleted_def Get_def Let_def
      split: sum.splits option.splits if_splits)

lemma IsDataMoverRestoreCompleted_Return:
  assumes "IsDataMoverRestoreCompleted cl observed ticks ns name pns = (Return b, calls)"
  shows "b \<and> (\<exists>i\<le>ticks. restoreCompleted (observed i) ns name pns)"
proof -
  from assms have
    "\<exists>u. poll (Suc ticks) 0 (\<lambda>i. restoreCondition (observed i) ns name pns) = (Return u, calls)
         \<and> b"
    by (auto simp: IsDataMoverRestoreCompleted_def PollImmediate_def
        split: option.splits prod.splits result.splits)
  then obtain u where
    p: "poll (Suc ticks) 0 (\<lambda>i. restoreCondition (observed i) ns name pns) = (Return u, calls)"
    and b: "b"
    by blast
  from poll_Return [OF p] obtain j cs where
    "j < Suc ticks" "restoreCondition (observed j) ns name pns = (Return True, cs)"
    by auto
  then have "j \<le> ticks" "restoreCompleted (observed j) ns name pns"
    by (auto dest: restoreCondition_True)
  with b show ?thesis by blast
qed

text \<open>
  C9. On a mover-backup item, when \<open>Execute\<close> returns without error it returns the
  empty output, its first call created the mover-restore request \<open>dmr-<claim>\<close> in
  the item's namespace, and at one of the runs of the poll the request existed, the
  replication target \<open><request>-rep-dest\<close> existed in the protected namespace, and the
  target had a last sync time and a manual trigger equal to its last manual sync. If
  that state is seen at no run before the timeout, \<open>Execute\<close> does not return an
  output.
\<close>

theorem restore_waits_for_completion:
  assumes "RestoreItem input = Inr dmb"
  shows "(DataMoverRestoreItemAction_Execute keys cl observed ticks input = (Return out, calls)
          \<longrightarrow> out = emptyOutput
              \<and> (\<exists>dmr rest. calls = CreateDataMoverRestore dmr # rest
                    \<and> Name dmr = ''dmr-'' @ index (Annotations dmb) (DatamoverSourcePVCName keys)
                    \<and> Namespace dmr = Namespace dmb
                    \<and> CreateDMR cl dmr = None)
              \<and> (\<exists>i\<le>ticks. restoreCompleted (observed i) (Namespace dmb)
                     (''dmr-'' @ index (Annotations dmb) (DatamoverSourcePVCName keys))
                     (dmb_ProtectedNamespace dmb)))
       \<and> ((\<forall>i\<le>ticks. \<not> restoreCompleted (observed i) (Namespace dmb)
                     (''dmr-'' @ index (Annotations dmb) (DatamoverSourcePVCName keys))
                     (dmb_ProtectedNamespace dmb))
          \<longrightarrow> (\<forall>out'. fst (DataMoverRestoreItemAction_Execute keys cl observed ticks input)
                        \<noteq> Return out'))"
proof -
  let ?name = "''dmr-'' @ index (Annotations dmb) (DatamoverSourcePVCName keys)"
  have main: "out = emptyOutput
              \<and> (\<exists>dmr rest. calls = CreateDataMoverRestore dmr # rest
                    \<and> Name dmr = ?name \<and> Namespace dmr = Namespace dmb
                    \<and> CreateDMR cl dmr = None)
              \<and> (\<exists>i\<le>ticks. restoreCompleted (observed i) (Namespace dmb) ?name
                     (dmb_ProtectedNamespace dmb))"
    if run: "DataMoverRestoreItemAction_Execute keys cl observed ticks input = (Return out, calls)"
    for out calls
  proof -
    from run assms have
      "\<exists>b cs. IsDataMoverRestoreCompleted cl observed ticks (Namespace dmb) ?name
            (dmb_ProtectedNamespace dmb) = (Return b, cs)
        \<and> out = emptyOutput
        \<and> (\<exists>dmr. calls = CreateDataMoverRestore dmr # cs \<and> Name dmr = ?name
                \<and> Namespace dmr = Namespace dmb \<and> CreateDMR cl dmr = None)"
      by (auto simp: DataMoverRestoreItemAction_Execute_def Let_def
          split: option.splits prod.splits result.splits if_splits)
    then obtain b cs where
      w: "IsDataMoverRestoreCompleted cl observed ticks (Namespace dmb) ?name
            (dmb_ProtectedNamespace dmb) = (Return b, cs)"
      and o: "out = emptyOutput"
      and c: "\<exists>dmr. calls = CreateDataMoverRestore dmr # cs \<and> Name dmr = ?name
                \<and> Namespace dmr = Namespace dmb \<and> CreateDMR cl dmr = None"
      by blast
    from IsDataMoverRestoreCompleted_Return [OF w] o c show ?thesis by blast
  qed
  have never: "fst (DataMoverRestoreItemAction_Execute keys cl observed ticks input) \<noteq> Return out'"
    if n: "\<forall>i\<le>ticks. \<not> restoreCompleted (observed i) (Namespace dmb) ?name
                     (dmb_ProtectedNamespace dmb)"
    for out'
  proof
    assume "fst (DataMoverRestoreItemAction_Execute keys cl observed ticks input) = Return out'"
    then have "DataMoverRestoreItemAction_Execute keys cl observed ticks input
                 = (Return out', snd (DataMoverRestoreItemAction_Execute keys cl observed ticks input))"
      by (simp add: prod_eq_iff)
    from main [OF this] n show False by blast
  qed
  from main [of out calls] never show ?thesis by blast
qed


text \<open>
  A restore of the mover backup of \<open>mssql-pvc\<close>: the replication destination is not
  there at the first run of the condition and is completed at the second.
\<close>

lemma ex_restore_run:
  "fst (DataMoverRestoreItemAction_Execute ex_keys (ex_restoreCluster ''mssql-pvc'')
          ex_observed 2 ex_dmbInput) = Return emptyOutput"
  by (simp add: DataMoverRestoreItemAction_Execute_def IsDataMoverRestoreCompleted_def
      PollImmediate_def restoreCondition_def Get_def Let_def numeral_2_eq_2
      ex_keys_def ex_dmbInput_def ex_dmb_def ex_observed_def ex_restoreCluster_def
      ex_dmr_def ex_repDest_def index_def)

theorem restore_waits_for_completion_witness:
  "RestoreItem ex_dmbInput = Inr ex_dmb
   \<and> fst (DataMoverRestoreItemAction_Execute ex_keys (ex_restoreCluster ''mssql-pvc'')
            ex_observed 2 ex_dmbInput) = Return emptyOutput
   \<and> \<not> restoreCompleted (ex_observed 0) ''app'' ''dmr-mssql-pvc'' ''openshift-adp''
   \<and> (\<exists>i\<le>2. restoreCompleted (ex_observed i) ''app'' ''dmr-mssql-pvc'' ''openshift-adp'')"
proof -
  let ?run = "DataMoverRestoreItemAction_Execute ex_keys (ex_restoreCluster ''mssql-pvc'')
                ex_observed 2 ex_dmbInput"
  have a: "RestoreItem ex_dmbInput = Inr ex_dmb" by (simp add: ex_dmbInput_def)
  have r: "?run = (Return emptyOutput, snd ?run)"
    using ex_restore_run by (simp add: prod_eq_iff)
  have n: "''dmr-'' @ index (Annotations ex_dmb) (DatamoverSourcePVCName ex_keys) = ''dmr-mssql-pvc''"
    by (simp add: ex_dmb_def ex_keys_def index_def)
  have f: "\<not> restoreCompleted (ex_observed 0) ''app'' ''dmr-mssql-pvc'' ''openshift-adp''"
    by (simp add: restoreCompleted_def ex_observed_def ex_restoreCluster_def)
  from restore_waits_for_completion
         [OF a, of ex_keys "ex_restoreCluster ''mssql-pvc''" ex_observed 2 emptyOutput "snd ?run"] r
  have "\<exists>i\<le>2. restoreCompleted (ex_observed i) (Namespace ex_dmb)
           (''dmr-'' @ index (Annotations ex_dmb) (DatamoverSourcePVCName ex_keys))
           (dmb_ProtectedNamespace ex_dmb)"
    by blast
  then have "\<exists>i\<le>2. restoreCompleted (ex_observed i) ''app'' ''dmr-mssql-pvc'' ''openshift-adp''"
    unfolding n by (simp add: ex_dmb_def)
  with a ex_restore_run f show ?thesis by blast
qed

text \<open>
  With the clients and the create in order and the condition "not yet" at every run,
  the restore of the item fails with the timeout error of the poll.
\<close>

lemma restore_times_out:
  assumes "RestoreItem input = Inr dmb"
    and "GetDatamoverClient cl = None" and "GetReplicationDestinationClient cl = None"
    and "\<And>dmr. CreateDMR cl dmr = None"
    and "\<And>i. i \<le> ticks \<Longrightarrow> \<exists>cs. restoreCondition (observed i) (Namespace dmb)
            (''dmr-'' @ index (Annotations dmb) (DatamoverSourcePVCName keys))
            (dmb_ProtectedNamespace dmb) = (Return False, cs)"
  shows "fst (DataMoverRestoreItemAction_Execute keys cl observed ticks input)
           = Failed (WithStack ErrWaitTimeout)"
proof -
  let ?cond = "\<lambda>i. restoreCondition (observed i) (Namespace dmb)
            (''dmr-'' @ index (Annotations dmb) (DatamoverSourcePVCName keys))
            (dmb_ProtectedNamespace dmb)"
  have "fst (poll (Suc ticks) 0 ?cond) = Failed ErrWaitTimeout"
    by (rule poll_timeout) (use assms(5) in auto)
  then obtain cs where "poll (Suc ticks) 0 ?cond = (Failed ErrWaitTimeout, cs)"
    by (cases "poll (Suc ticks) 0 ?cond") auto
  with assms(1-4) show ?thesis
    by (simp add: DataMoverRestoreItemAction_Execute_def IsDataMoverRestoreCompleted_def
        PollImmediate_def Let_def del: poll.simps)
qed

subsection \<open>The static binding of a restored Snapshot\<close>













subsection \<open>The backup of a SnapshotContent\<close>

text \<open>
  \<open>DoesDataMoverBackupExistForVSC\<close> answers \<open>true\<close> exactly when the object it gets
  records the name of the content; when the \<open>Get\<close> fails, not-found included, it
  answers \<open>false\<close> with the error.
\<close>

lemma DoesDataMoverBackupExistForVSC_True:
  "fst (DoesDataMoverBackupExistForVSC datamoverClient dataMoverBackups volSnap) = (True, None)
   \<longleftrightarrow> datamoverClient = None
       \<and> (\<exists>dmb. Get dataMoverBackups (Namespace volSnap)
                   (''dmb-'' @ ref_Name (VolumeSnapshotRef (vsc_Spec volSnap))) = Inr dmb
                \<and> dmb_VolumeSnapshotContent_Name dmb \<noteq> []
                \<and> dmb_VolumeSnapshotContent_Name dmb = Name volSnap)"
  by (auto simp: DoesDataMoverBackupExistForVSC_def Let_def split: option.splits sum.splits)

lemma DoesDataMoverBackupExistForVSC_error:
  assumes "dataMoverBackups (Namespace volSnap,
             ''dmb-'' @ ref_Name (VolumeSnapshotRef (vsc_Spec volSnap))) = Inl err"
  shows "fst (DoesDataMoverBackupExistForVSC None dataMoverBackups volSnap) = (False, Some err)"
  using assms by (simp add: DoesDataMoverBackupExistForVSC_def Get_def Let_def)

text \<open>
  One run of the action: the only call it can make is the create of the object that
  records the name of the content, and it makes it only when the check found none; the
  objects of the cluster stay, or this one is added and the action returns; after a
  return an object for the content exists; and with such an object the action makes no
  call.
\<close>

lemma Backup_Execute_create_needs_absence:
  assumes "VolumeSnapshotContentBackupItemAction_Execute keys cl objects (Inr snapCont) ns
             = (r, calls, objects')"
    and "CreateVolumeSnapshotBackup v \<in> set calls"
  shows "\<not> list_ex (\<lambda>vsb. vsb_VolumeSnapshotContent_Name vsb = Name snapCont) objects"
    and "vsb_VolumeSnapshotContent_Name v = Name snapCont"
    and "Name v = ''vsb-'' @ ref_Name (VolumeSnapshotRef (vsc_Spec snapCont))"
    and "Namespace v = ref_Namespace (VolumeSnapshotRef (vsc_Spec snapCont))"
    and "calls = [CreateVolumeSnapshotBackup v]"
  using assms
  by (auto simp: VolumeSnapshotContentBackupItemAction_Execute_def
      DoesVolumeSnapshotBackupExistForVSC_def Let_def
      split: option.splits if_splits prod.splits)

lemma Backup_Execute_objects:
  assumes "VolumeSnapshotContentBackupItemAction_Execute keys cl objects (Inr snapCont) ns
             = (r, calls, objects')"
  shows "objects' = objects
         \<or> (\<exists>v. objects' = objects @ [v] \<and> calls = [CreateVolumeSnapshotBackup v]
                \<and> vsb_VolumeSnapshotContent_Name v = Name snapCont
                \<and> (\<exists>out. r = Return out))"
  using assms
  by (auto simp: VolumeSnapshotContentBackupItemAction_Execute_def
      DoesVolumeSnapshotBackupExistForVSC_def Let_def Create_def
      split: option.splits if_splits prod.splits)

lemma Backup_Execute_Return_exists:
  assumes "VolumeSnapshotContentBackupItemAction_Execute keys cl objects (Inr snapCont) ns
             = (Return out, calls, objects')"
  shows "list_ex (\<lambda>vsb. vsb_VolumeSnapshotContent_Name vsb = Name snapCont) objects'"
  using assms
  by (auto simp: VolumeSnapshotContentBackupItemAction_Execute_def
      DoesVolumeSnapshotBackupExistForVSC_def Let_def Create_def list_ex_iff
      split: option.splits if_splits prod.splits)

lemma Backup_Execute_no_create_when_exists:
  assumes "list_ex (\<lambda>vsb. vsb_VolumeSnapshotContent_Name vsb = Name snapCont) objects"
  shows "snd (VolumeSnapshotContentBackupItemAction_Execute keys cl objects (Inr snapCont) ns)
           = ([], objects)"
  using assms
  by (auto simp: VolumeSnapshotContentBackupItemAction_Execute_def
      DoesVolumeSnapshotBackupExistForVSC_def Let_def
      split: option.splits if_splits prod.splits)

text \<open>
  Two backups of the content \<open>snapcontent-1\<close> of the Snapshot \<open>app/snap-1\<close>, on a
  cluster without objects of the mover.
\<close>

lemma ex_backup_first:
  "VolumeSnapshotContentBackupItemAction_Execute ex_secretKeys ex_backupCluster []
       (Inr ex_snapCont) ''openshift-adp''
     = (Return (ex_snapCont,
                [\<lparr>Group = ''datamover.oadp.openshift.io'', Resource = ''volumesnapshotbackup'',
                  ri_Namespace = ''app'', ri_Name = ''vsb-snap-1''\<rparr>]),
        [CreateVolumeSnapshotBackup ex_vsb], [ex_vsb])"
  by (simp add: VolumeSnapshotContentBackupItemAction_Execute_def
      DoesVolumeSnapshotBackupExistForVSC_def IsVolumeSnapshotContentHasDeleteSecret_def
      Create_def commaOk_def Let_def ex_backupCluster_def ex_snapCont_def ex_ref_def ex_vsb_def)

lemma ex_backup_second:
  "VolumeSnapshotContentBackupItemAction_Execute ex_secretKeys ex_backupCluster [ex_vsb]
       (Inr ex_snapCont) ''velero''
     = (Return (ex_snapCont,
                [\<lparr>Group = ''datamover.oadp.openshift.io'', Resource = ''volumesnapshotbackup'',
                  ri_Namespace = ''app'', ri_Name = ''vsb-snap-1''\<rparr>]),
        [], [ex_vsb])"
  by (simp add: VolumeSnapshotContentBackupItemAction_Execute_def
      DoesVolumeSnapshotBackupExistForVSC_def IsVolumeSnapshotContentHasDeleteSecret_def
      Create_def commaOk_def Let_def ex_backupCluster_def ex_snapCont_def ex_ref_def ex_vsb_def)

text \<open>
  C6. Two runs of the action for the same SnapshotContent, the second on the objects the
  first left, each with a cluster and a backup namespace of its own: a run issues a
  create only when no object of the cluster records the name of the content; when the
  first run returns, the second makes no call and leaves the objects as they are; and the
  objects after both runs are the ones before, with at most one added.
\<close>

theorem backup_creates_at_most_one:
  assumes "VolumeSnapshotContentBackupItemAction_Execute keys cl1 objects (Inr snapCont) ns1
             = (r1, calls1, objects1)"
    and "VolumeSnapshotContentBackupItemAction_Execute keys cl2 objects1 (Inr snapCont) ns2
             = (r2, calls2, objects2)"
  shows "(CreateVolumeSnapshotBackup v \<in> set calls1
            \<longrightarrow> \<not> list_ex (\<lambda>vsb. vsb_VolumeSnapshotContent_Name vsb = Name snapCont) objects)
       \<and> (CreateVolumeSnapshotBackup v \<in> set calls2
            \<longrightarrow> \<not> list_ex (\<lambda>vsb. vsb_VolumeSnapshotContent_Name vsb = Name snapCont) objects1)
       \<and> (r1 = Return out \<longrightarrow> calls2 = [] \<and> objects2 = objects1)
       \<and> (\<exists>added. objects2 = objects @ added \<and> length added \<le> 1)"
proof -
  let ?P = "\<lambda>vsb. vsb_VolumeSnapshotContent_Name vsb = Name snapCont"
  have a: "\<not> list_ex ?P objects" if "CreateVolumeSnapshotBackup v \<in> set calls1"
    using Backup_Execute_create_needs_absence(1) [OF assms(1) that] .
  have b: "\<not> list_ex ?P objects1" if "CreateVolumeSnapshotBackup v \<in> set calls2"
    using Backup_Execute_create_needs_absence(1) [OF assms(2) that] .
  have quiet: "calls2 = [] \<and> objects2 = objects1" if "list_ex ?P objects1"
    using Backup_Execute_no_create_when_exists [OF that, of keys cl2 ns2] assms(2) by simp
  have c: "calls2 = [] \<and> objects2 = objects1" if "r1 = Return out"
    using Backup_Execute_Return_exists assms(1) that quiet by blast
  have d: "\<exists>added. objects2 = objects @ added \<and> length added \<le> 1"
  proof -
    from Backup_Execute_objects [OF assms(1)] consider
        (same) "objects1 = objects"
      | (added) w where "objects1 = objects @ [w]" "vsb_VolumeSnapshotContent_Name w = Name snapCont"
      by blast
    then show ?thesis
    proof cases
      case same
      from Backup_Execute_objects [OF assms(2)]
      have "objects2 = objects1 \<or> (\<exists>w. objects2 = objects1 @ [w])" by blast
      then have "\<exists>added. objects2 = objects1 @ added \<and> length added \<le> 1"
        by (metis append_Nil2 le_numeral_extra(4) length_Cons list.size(3) One_nat_def
            zero_le_one)
      with same show ?thesis by simp
    next
      case added
      then have "list_ex ?P objects1" by simp
      from quiet [OF this] added(1) have "objects2 = objects @ [w]" by simp
      then show ?thesis by (intro exI [of _ "[w]"]) simp
    qed
  qed
  from a b c d show ?thesis by blast
qed

text \<open>The two backups of \<open>snapcontent-1\<close>.\<close>

theorem backup_creates_at_most_one_witness:
  "VolumeSnapshotContentBackupItemAction_Execute ex_secretKeys ex_backupCluster []
       (Inr ex_snapCont) ''openshift-adp''
     = (Return (ex_snapCont,
                [\<lparr>Group = ''datamover.oadp.openshift.io'', Resource = ''volumesnapshotbackup'',
                  ri_Namespace = ''app'', ri_Name = ''vsb-snap-1''\<rparr>]),
        [CreateVolumeSnapshotBackup ex_vsb], [ex_vsb])
   \<and> \<not> list_ex (\<lambda>vsb. vsb_VolumeSnapshotContent_Name vsb = Name ex_snapCont) []
   \<and> snd (VolumeSnapshotContentBackupItemAction_Execute ex_secretKeys ex_backupCluster [ex_vsb]
            (Inr ex_snapCont) ''velero'') = ([], [ex_vsb])
   \<and> (\<exists>added. [ex_vsb] = [] @ added \<and> length added \<le> 1)"
proof -
  let ?second = "VolumeSnapshotContentBackupItemAction_Execute ex_secretKeys ex_backupCluster
                   [ex_vsb] (Inr ex_snapCont) ''velero''"
  have r2: "?second = (fst ?second, fst (snd ?second), snd (snd ?second))" by simp
  note t = backup_creates_at_most_one [OF ex_backup_first r2, where v = ex_vsb]
  from t have "\<not> list_ex (\<lambda>vsb. vsb_VolumeSnapshotContent_Name vsb = Name ex_snapCont) []"
    by simp
  moreover from t have q: "fst (snd ?second) = [] \<and> snd (snd ?second) = [ex_vsb]" by blast
  then have "snd ?second = ([], [ex_vsb])" by (simp add: prod_eq_iff)
  moreover from t q have "\<exists>added. [ex_vsb] = [] @ added \<and> length added \<le> 1" by simp
  ultimately show ?thesis using ex_backup_first by blast
qed

end
